theory Spec2Isabelle
  imports Complex_Main
begin

section \<open>JavaScript values, thrown values and text\<close>

text \<open>
  Values produced by \<^verbatim>\<open>JSON.parse\<close> (with or without the \<^verbatim>\<open>dateReviver\<close> of App.tsx).
  An object is an association list in insertion order; a property that is not in the list
  reads as \<^verbatim>\<open>undefined\<close>, which is the \<open>None\<close> of \<open>field\<close>.  A number carries
  the exact decimal value of its literal (rounding to a double is not modelled).  Text is a
  list of 8-bit characters standing for the code units U+0000 to U+00FF.
\<close>

datatype jsval =
    JNull
  | JBool bool
  | JNum rat
  | JStr string
  | JArr "jsval list"
  | JObj "(string \<times> jsval) list"
  | JDate string

text \<open>
  A thrown value: an \<^verbatim>\<open>Error\<close> object with its message and its (engine generated, optional)
  stack text, or some other non-nullish value, given by its \<^verbatim>\<open>String(...)\<close> form.
\<close>

datatype thrown =
    ErrorObj string "string option"
  | NonError string

definition new_Error :: "string \<Rightarrow> thrown" where
  "new_Error msg = ErrorObj msg None"

text \<open>\<^verbatim>\<open>e instanceof Error ? e.message : String(e)\<close>\<close>

fun message_or_String :: "thrown \<Rightarrow> string" where
  "message_or_String (ErrorObj m st) = m"
| "message_or_String (NonError s) = s"

text \<open>\<^verbatim>\<open>e.message\<close> and \<^verbatim>\<open>e.stack\<close>: undefined on a value that is not an Error object.\<close>

fun message_of :: "thrown \<Rightarrow> string option" where
  "message_of (ErrorObj m st) = Some m"
| "message_of (NonError s) = None"

fun stack_of :: "thrown \<Rightarrow> string option" where
  "stack_of (ErrorObj m st) = st"
| "stack_of (NonError s) = None"

definition dquote :: char where
  "dquote = CHR 0x22"

definition backslash :: char where
  "backslash = CHR 0x5C"

definition is_ws_json :: "char \<Rightarrow> bool" where
  "is_ws_json c = (c = CHR 0x20 \<or> c = CHR 0x09 \<or> c = CHR 0x0A \<or> c = CHR 0x0D)"

text \<open>The white space and line terminators that \<^verbatim>\<open>String.prototype.trim\<close> removes.\<close>

definition is_ws_trim :: "char \<Rightarrow> bool" where
  "is_ws_trim c = (is_ws_json c \<or> c = CHR 0x0B \<or> c = CHR 0x0C \<or> c = CHR 0xA0)"

definition trim :: "string \<Rightarrow> string" where
  "trim s = rev (dropWhile is_ws_trim (rev (dropWhile is_ws_trim s)))"

text \<open>\<^verbatim>\<open>s.endsWith(',')\<close> and \<^verbatim>\<open>s.slice(0, -1)\<close>\<close>

definition endsWith :: "string \<Rightarrow> char \<Rightarrow> bool" where
  "endsWith s c = (case rev s of [] \<Rightarrow> False | x # xs \<Rightarrow> x = c)"

definition slice_0_m1 :: "string \<Rightarrow> string" where
  "slice_0_m1 s = take (length s - 1) s"

text \<open>\<^verbatim>\<open>s.indexOf(c)\<close>: the first position of the character, or -1.\<close>

fun indexOf_from :: "int \<Rightarrow> string \<Rightarrow> char \<Rightarrow> int" where
  "indexOf_from i [] c = -1"
| "indexOf_from i (x # xs) c = (if x = c then i else indexOf_from (i + 1) xs c)"

definition indexOf :: "string \<Rightarrow> char \<Rightarrow> int" where
  "indexOf s c = indexOf_from 0 s c"

text \<open>\<^verbatim>\<open>s.substring(start)\<close> for \<open>start \<ge> 0\<close>\<close>

definition substring :: "string \<Rightarrow> int \<Rightarrow> string" where
  "substring s start = drop (nat start) s"

text \<open>
  \<^verbatim>\<open>s.replace(/pat/g, '')\<close> for a literal, non-empty pattern \<open>p # ps\<close>: every match,
  found from left to right without overlap, is removed.
\<close>

fun is_prefix :: "string \<Rightarrow> string \<Rightarrow> bool" where
  "is_prefix [] ys = True"
| "is_prefix (x # xs) [] = False"
| "is_prefix (x # xs) (y # ys) = (x = y \<and> is_prefix xs ys)"

function remove_all :: "char \<Rightarrow> string \<Rightarrow> string \<Rightarrow> string" where
  "remove_all p ps [] = []"
| "remove_all p ps (c # cs) =
     (if c = p \<and> is_prefix ps cs then remove_all p ps (drop (length ps) cs)
      else c # remove_all p ps cs)"
  by pat_completeness auto
termination
  by (relation "measure (\<lambda>(p, ps, s). length s)") auto

section \<open>repairJSON\<close>

text \<open>
  The first loop of \<^verbatim>\<open>repairJSON\<close>: \<^verbatim>\<open>for (let i = 0; i < repaired.length; i++)\<close>,
  counting the quotes that are not preceded by a backslash.
\<close>

definition quote_at :: "string \<Rightarrow> nat \<Rightarrow> bool" where
  "quote_at repaired i =
     (repaired ! i = dquote \<and> (i = 0 \<or> repaired ! (i - 1) \<noteq> backslash))"

function count_quotes_loop :: "string \<Rightarrow> nat \<Rightarrow> nat \<Rightarrow> nat" where
  "count_quotes_loop repaired i quoteCount =
     (if i < length repaired
      then count_quotes_loop repaired (i + 1)
             (if quote_at repaired i then quoteCount + 1 else quoteCount)
      else quoteCount)"
  by pat_completeness auto
termination
  by (relation "measure (\<lambda>(repaired, i, n). length repaired - i)") auto

text \<open>
  The second loop: the stack of expected closers is an array, pushed and popped at its
  end, so the top of the stack is the last element of the list.
\<close>

definition balance_step :: "char \<Rightarrow> string \<Rightarrow> string" where
  "balance_step char stack =
     (if char = CHR ''{'' then stack @ [CHR ''}'']
      else if char = CHR ''['' then stack @ [CHR '']'']
      else if char = CHR ''}'' \<or> char = CHR '']'' then
        (if length stack > 0 \<and> stack ! (length stack - 1) = char then butlast stack else stack)
      else stack)"

function balance_loop :: "string \<Rightarrow> nat \<Rightarrow> bool \<Rightarrow> string \<Rightarrow> string" where
  "balance_loop repaired i insideString stack =
     (if i < length repaired then
        (if quote_at repaired i then balance_loop repaired (i + 1) (\<not> insideString) stack
         else if \<not> insideString
           then balance_loop repaired (i + 1) insideString (balance_step (repaired ! i) stack)
           else balance_loop repaired (i + 1) insideString stack)
      else stack)"
  by pat_completeness auto
termination
  by (relation "measure (\<lambda>(repaired, i, b, st). length repaired - i)") auto

text \<open>\<^verbatim>\<open>while (stack.length > 0) { repaired += stack.pop(); }\<close>\<close>

function append_closers :: "string \<Rightarrow> string \<Rightarrow> string" where
  "append_closers repaired stack =
     (if length stack > 0 then append_closers (repaired @ [last stack]) (butlast stack)
      else repaired)"
  by pat_completeness auto
termination
  by (relation "measure (\<lambda>(repaired, stack). length stack)") auto

definition repairJSON :: "string \<Rightarrow> string" where
  "repairJSON jsonString =
     (let repaired = trim jsonString;
          repaired = (if endsWith repaired (CHR '','') then slice_0_m1 repaired else repaired);
          quoteCount = count_quotes_loop repaired 0 0;
          repaired = (if quoteCount mod 2 \<noteq> 0 then repaired @ [dquote] else repaired);
          stack = balance_loop repaired 0 False []
      in append_closers repaired stack)"

declare remove_all.simps [simp del]
declare count_quotes_loop.simps [simp del]
declare balance_loop.simps [simp del]
declare append_closers.simps [simp del]

section \<open>JSON.parse\<close>

text \<open>
  \<^verbatim>\<open>JSON.parse\<close> is the ECMAScript built-in; it is modelled after the JSON grammar
  (ECMA-404): a tokenizer and a pushdown recogniser that builds the value.  \<open>Inl\<close> is the
  message of the \<^verbatim>\<open>SyntaxError\<close> it throws (the wording of the message is the engine's).
  An escape above U+00FF denotes a code unit outside the 8-bit characters of this
  model and is reported with a message of its own.
\<close>

datatype token =
    TLBrace | TRBrace | TLBrack | TRBrack | TColon | TComma
  | TString string | TNumber rat | TTrue | TFalse | TNull

definition is_digit :: "char \<Rightarrow> bool" where
  "is_digit c = (48 \<le> (of_char c :: nat) \<and> (of_char c :: nat) \<le> 57)"

definition is_lower :: "char \<Rightarrow> bool" where
  "is_lower c = (97 \<le> (of_char c :: nat) \<and> (of_char c :: nat) \<le> 122)"

definition is_num_char :: "char \<Rightarrow> bool" where
  "is_num_char c =
     (is_digit c \<or> c = CHR ''+'' \<or> c = CHR ''-'' \<or> c = CHR ''.'' \<or> c = CHR ''e'' \<or> c = CHR ''E'')"

definition hex_val :: "char \<Rightarrow> nat option" where
  "hex_val c =
     (let n = (of_char c :: nat) in
      if 48 \<le> n \<and> n \<le> 57 then Some (n - 48)
      else if 65 \<le> n \<and> n \<le> 70 then Some (n - 55)
      else if 97 \<le> n \<and> n \<le> 102 then Some (n - 87)
      else None)"

definition unescape :: "char \<Rightarrow> char option" where
  "unescape e =
     (if e = dquote then Some dquote
      else if e = backslash then Some backslash
      else if e = CHR ''/'' then Some (CHR ''/'')
      else if e = CHR ''b'' then Some (CHR 0x08)
      else if e = CHR ''f'' then Some (CHR 0x0C)
      else if e = CHR ''n'' then Some (CHR 0x0A)
      else if e = CHR ''r'' then Some (CHR 0x0D)
      else if e = CHR ''t'' then Some (CHR 0x09)
      else None)"

definition hex4 :: "char \<Rightarrow> char \<Rightarrow> char \<Rightarrow> char \<Rightarrow> nat option" where
  "hex4 h1 h2 h3 h4 =
     (case (hex_val h1, hex_val h2, hex_val h3, hex_val h4) of
        (Some a, Some b, Some c, Some d) \<Rightarrow> Some (((a * 16 + b) * 16 + c) * 16 + d)
      | _ \<Rightarrow> None)"

text \<open>
  The characters of a string literal after its opening quote: the contents and the text
  after the closing quote.
\<close>

fun lex_string :: "string \<Rightarrow> string \<Rightarrow> string + (string \<times> string)" where
  "lex_string acc [] = Inl ''Unterminated string in JSON''"
| "lex_string acc (c # cs) =
     (if c = dquote then Inr (rev acc, cs)
      else if c = backslash then
        (case cs of
           [] \<Rightarrow> Inl ''Unterminated string in JSON''
         | e # cs' \<Rightarrow>
             if e = CHR ''u'' then
               (case cs' of
                  h1 # h2 # h3 # h4 # cs'' \<Rightarrow>
                    (case hex4 h1 h2 h3 h4 of
                       None \<Rightarrow> Inl ''Bad Unicode escape in JSON''
                     | Some n \<Rightarrow>
                         if n < 256 then lex_string (char_of n # acc) cs''
                         else Inl ''escape above u00FF: outside the model'')
                | _ \<Rightarrow> Inl ''Bad Unicode escape in JSON'')
             else
               (case unescape e of
                  None \<Rightarrow> Inl ''Bad escaped character in JSON''
                | Some ch \<Rightarrow> lex_string (ch # acc) cs'))
      else if (of_char c :: nat) < 32 then Inl ''Bad control character in string literal in JSON''
      else lex_string (c # acc) cs)"

definition digits_val :: "string \<Rightarrow> nat" where
  "digits_val ds = foldl (\<lambda>a d. 10 * a + ((of_char d :: nat) - 48)) 0 ds"

text \<open>An optional sign at the head of the text.\<close>

definition split_minus :: "string \<Rightarrow> bool \<times> string" where
  "split_minus s =
     (case s of [] \<Rightarrow> (False, [])
      | c # r \<Rightarrow> if c = CHR ''-'' then (True, r) else (False, s))"

definition split_sign :: "string \<Rightarrow> bool \<times> string" where
  "split_sign s =
     (case s of [] \<Rightarrow> (False, [])
      | c # r \<Rightarrow> if c = CHR ''-'' then (True, r) else if c = CHR ''+'' then (False, r) else (False, s))"

text \<open>The fraction of a number: its digits and the text after them.\<close>

definition opt_frac :: "string \<Rightarrow> (string \<times> string) option" where
  "opt_frac s =
     (case s of [] \<Rightarrow> Some ([], [])
      | c # r \<Rightarrow>
          if c = CHR ''.'' then
            (if takeWhile is_digit r = [] then None
             else Some (takeWhile is_digit r, dropWhile is_digit r))
          else Some ([], s))"

text \<open>The exponent of a number, which must end the lexeme.\<close>

definition opt_exp :: "string \<Rightarrow> int option" where
  "opt_exp s =
     (case s of [] \<Rightarrow> Some 0
      | c # r \<Rightarrow>
          if c = CHR ''e'' \<or> c = CHR ''E'' then
            (let (neg, ds) = split_sign r in
             if ds = [] \<or> \<not> list_all is_digit ds then None
             else Some (if neg then - int (digits_val ds) else int (digits_val ds)))
          else None)"

definition scale10 :: "rat \<Rightarrow> int \<Rightarrow> rat" where
  "scale10 m e = (if 0 \<le> e then m * 10 ^ nat e else m / 10 ^ nat (- e))"

definition parse_number :: "string \<Rightarrow> rat option" where
  "parse_number s =
     (let (neg, s1) = split_minus s;
          ip = takeWhile is_digit s1
      in if ip = [] \<or> (length ip > 1 \<and> hd ip = CHR ''0'') then None
         else
           (case opt_frac (dropWhile is_digit s1) of
              None \<Rightarrow> None
            | Some (fp, s2) \<Rightarrow>
                (case opt_exp s2 of
                   None \<Rightarrow> None
                 | Some e \<Rightarrow>
                     (let m = of_nat (digits_val (ip @ fp));
                          v = scale10 m (e - int (length fp))
                      in Some (if neg then - v else v)))))"

definition word_token :: "string \<Rightarrow> token option" where
  "word_token w =
     (if w = ''true'' then Some TTrue
      else if w = ''false'' then Some TFalse
      else if w = ''null'' then Some TNull
      else None)"

definition emit :: "token \<Rightarrow> string + token list \<Rightarrow> string + token list" where
  "emit t r = (case r of Inl e \<Rightarrow> Inl e | Inr ts \<Rightarrow> Inr (t # ts))"

lemma lex_string_shorter:
  "lex_string acc cs = Inr (s, rest) \<Longrightarrow> length rest < length cs"
proof (induction acc cs rule: lex_string.induct)
  case (1 acc)
  then show ?case by simp
next
  case (2 acc c cs)
  then show ?case
    by (auto split: if_splits list.splits option.splits simp: less_Suc_eq)
qed

function tokenize :: "string \<Rightarrow> string + token list" where
  "tokenize [] = Inr []"
| "tokenize (c # cs) =
     (if is_ws_json c then tokenize cs
      else if c = CHR ''{'' then emit TLBrace (tokenize cs)
      else if c = CHR ''}'' then emit TRBrace (tokenize cs)
      else if c = CHR ''['' then emit TLBrack (tokenize cs)
      else if c = CHR '']'' then emit TRBrack (tokenize cs)
      else if c = CHR '':'' then emit TColon (tokenize cs)
      else if c = CHR '','' then emit TComma (tokenize cs)
      else if c = dquote then
        (case lex_string [] cs of
           Inl e \<Rightarrow> Inl e
         | Inr (s, rest) \<Rightarrow> emit (TString s) (tokenize rest))
      else if c = CHR ''-'' \<or> is_digit c then
        (case parse_number (c # takeWhile is_num_char cs) of
           None \<Rightarrow> Inl ''Unexpected number in JSON''
         | Some v \<Rightarrow> emit (TNumber v) (tokenize (dropWhile is_num_char cs)))
      else if is_lower c then
        (case word_token (c # takeWhile is_lower cs) of
           None \<Rightarrow> Inl ''Unexpected token in JSON''
         | Some t \<Rightarrow> emit t (tokenize (dropWhile is_lower cs)))
      else Inl ''Unexpected token in JSON'')"
  by pat_completeness auto
termination
proof (relation "measure length")
  fix c cs x s rest
  assume "lex_string [] cs = Inr x" and "(s, rest) = x"
  then have "length rest < length cs"
    using lex_string_shorter [of "[]" cs s rest] by simp
  then show "(rest, c # cs) \<in> measure length" by simp
qed (auto simp: length_dropWhile_le le_imp_less_Suc)

declare tokenize.simps [simp del]

text \<open>
  The recogniser: a stack of the containers that are open (innermost first), what may come
  next, and the finished value.  A repeated key keeps its first position and takes the
  last value, as a property assignment does.
\<close>

datatype frame =
    FArr "jsval list"
  | FObj "(string \<times> jsval) list" "string option"

datatype expect =
    ExpValue | ExpValueOrEnd | ExpKeyOrEnd | ExpKey | ExpColon | ExpCommaOrEnd | ExpEOF

fun obj_set :: "(string \<times> jsval) list \<Rightarrow> string \<Rightarrow> jsval \<Rightarrow> (string \<times> jsval) list" where
  "obj_set [] k v = [(k, v)]"
| "obj_set ((k', v') # kvs) k v =
     (if k' = k then (k, v) # kvs else (k', v') # obj_set kvs k v)"

type_synonym pstate = "frame list \<times> expect \<times> jsval option"

definition syntax_error :: "string + pstate" where
  "syntax_error = Inl ''Unexpected token in JSON''"

fun put_value :: "jsval \<Rightarrow> frame list \<Rightarrow> string + pstate" where
  "put_value v [] = Inr ([], ExpEOF, Some v)"
| "put_value v (FArr xs # fs) = Inr (FArr (xs @ [v]) # fs, ExpCommaOrEnd, None)"
| "put_value v (FObj kvs (Some k) # fs) = Inr (FObj (obj_set kvs k v) None # fs, ExpCommaOrEnd, None)"
| "put_value v (FObj kvs None # fs) = syntax_error"

fun close_frame :: "token \<Rightarrow> frame list \<Rightarrow> string + pstate" where
  "close_frame TRBrack (FArr xs # fs) = put_value (JArr xs) fs"
| "close_frame TRBrace (FObj kvs None # fs) = put_value (JObj kvs) fs"
| "close_frame t fs = syntax_error"

fun start_value :: "token \<Rightarrow> frame list \<Rightarrow> string + pstate" where
  "start_value TLBrace fs = Inr (FObj [] None # fs, ExpKeyOrEnd, None)"
| "start_value TLBrack fs = Inr (FArr [] # fs, ExpValueOrEnd, None)"
| "start_value (TString s) fs = put_value (JStr s) fs"
| "start_value (TNumber n) fs = put_value (JNum n) fs"
| "start_value TTrue fs = put_value (JBool True) fs"
| "start_value TFalse fs = put_value (JBool False) fs"
| "start_value TNull fs = put_value JNull fs"
| "start_value t fs = syntax_error"

fun take_key :: "token \<Rightarrow> frame list \<Rightarrow> string + pstate" where
  "take_key (TString k) (FObj kvs None # fs) = Inr (FObj kvs (Some k) # fs, ExpColon, None)"
| "take_key t fs = syntax_error"

fun after_comma :: "frame list \<Rightarrow> string + pstate" where
  "after_comma (FArr xs # fs) = Inr (FArr xs # fs, ExpValue, None)"
| "after_comma (FObj kvs None # fs) = Inr (FObj kvs None # fs, ExpKey, None)"
| "after_comma fs = syntax_error"

fun pstep :: "token \<Rightarrow> pstate \<Rightarrow> string + pstate" where
  "pstep t (fs, ExpValue, r) = start_value t fs"
| "pstep t (fs, ExpValueOrEnd, r) = (if t = TRBrack then close_frame t fs else start_value t fs)"
| "pstep t (fs, ExpKeyOrEnd, r) = (if t = TRBrace then close_frame t fs else take_key t fs)"
| "pstep t (fs, ExpKey, r) = take_key t fs"
| "pstep t (fs, ExpColon, r) = (if t = TColon then Inr (fs, ExpValue, None) else syntax_error)"
| "pstep t (fs, ExpCommaOrEnd, r) = (if t = TComma then after_comma fs else close_frame t fs)"
| "pstep t (fs, ExpEOF, r) = syntax_error"

fun prun :: "token list \<Rightarrow> pstate \<Rightarrow> string + jsval" where
  "prun [] (fs, e, r) =
     (case r of Some v \<Rightarrow> Inr v | None \<Rightarrow> Inl ''Unexpected end of JSON input'')"
| "prun (t # ts) st = (case pstep t st of Inl e \<Rightarrow> Inl e | Inr st' \<Rightarrow> prun ts st')"

definition JSON_parse :: "string \<Rightarrow> string + jsval" where
  "JSON_parse text =
     (case tokenize text of
        Inl e \<Rightarrow> Inl e
      | Inr ts \<Rightarrow> prun ts ([], ExpValue, None))"

section \<open>cleanAndParseJSON\<close>

text \<open>
  \<^verbatim>\<open>cleanAndParseJSON\<close>, with the parser it calls as a parameter; the function of the
  source is the instance at \<open>JSON_parse\<close>.
\<close>

text \<open>
  The two patterns of the source, \<^verbatim>\<open>/```json/g\<close> and \<^verbatim>\<open>/```/g\<close>, each as its first
  character, a backtick, and the characters after it.
\<close>

definition fence_json :: string where
  "fence_json = ''``json''"

definition fence :: string where
  "fence = ''``''"

definition strip_fences :: "string \<Rightarrow> string" where
  "strip_fences text = remove_all (CHR ''`'') fence (remove_all (CHR ''`'') fence_json text)"

definition payload_start :: "string \<Rightarrow> int" where
  "payload_start cleanText =
     (let firstCurly = indexOf cleanText (CHR ''{'');
          firstSquare = indexOf cleanText (CHR ''['')
      in if firstCurly \<noteq> -1 \<and> (firstSquare = -1 \<or> firstCurly < firstSquare) then firstCurly
         else if firstSquare \<noteq> -1 then firstSquare
         else -1)"

definition locate_payload :: "string \<Rightarrow> string" where
  "locate_payload text =
     (let cleanText = trim (strip_fences text);
          start = payload_start cleanText
      in if start \<noteq> -1 then substring cleanText start else cleanText)"

definition cleanAndParseJSON_with :: "(string \<Rightarrow> string + jsval) \<Rightarrow> string \<Rightarrow> thrown + jsval" where
  "cleanAndParseJSON_with parse text =
     (if text = [] then Inr (JObj [])
      else
        (let cleanText = locate_payload text in
         case parse cleanText of
           Inr v \<Rightarrow> Inr v
         | Inl e \<Rightarrow>
             (case parse (repairJSON cleanText) of
                Inr v \<Rightarrow> Inr v
              | Inl repairError \<Rightarrow> Inl (new_Error (''JSON Parse Failed: '' @ e)))))"

definition cleanAndParseJSON :: "string \<Rightarrow> thrown + jsval" where
  "cleanAndParseJSON text = cleanAndParseJSON_with JSON_parse text"

section \<open>sanitizeDealData\<close>

text \<open>
  Reading a property \<^verbatim>\<open>v.k\<close> whose name is on no built-in prototype: \<^verbatim>\<open>undefined\<close>
  (\<open>None\<close>) unless \<open>v\<close> is an object that has it.  On \<^verbatim>\<open>null\<close> the read throws a
  TypeError, which \<open>sanitizeDealData\<close> below makes explicit.
\<close>

fun field :: "jsval \<Rightarrow> string \<Rightarrow> jsval option" where
  "field (JObj kvs) k = map_of kvs k"
| "field v k = None"


fun truthy :: "jsval \<Rightarrow> bool" where
  "truthy JNull = False"
| "truthy (JBool b) = b"
| "truthy (JNum n) = (n \<noteq> 0)"
| "truthy (JStr s) = (s \<noteq> [])"
| "truthy (JArr xs) = True"
| "truthy (JObj kvs) = True"
| "truthy (JDate d) = True"

text \<open>\<^verbatim>\<open>x || d\<close> where \<open>x\<close> may be \<^verbatim>\<open>undefined\<close>\<close>

definition lor :: "jsval option \<Rightarrow> jsval \<Rightarrow> jsval" where
  "lor x d = (case x of None \<Rightarrow> d | Some v \<Rightarrow> if truthy v then v else d)"

fun show_nat :: "nat \<Rightarrow> string" where
  "show_nat n =
     (if n < 10 then [char_of (48 + n)]
      else show_nat (n div 10) @ [char_of (48 + n mod 10)])"

declare show_nat.simps [simp del]

text \<open>
  The own enumerable properties that an object spread \<^verbatim>\<open>{ ...v }\<close> copies: the entries of an
  object, the indexed elements of an array, the indexed characters of a string, and none
  of a number, a boolean or a date.
\<close>

fun own_props :: "jsval \<Rightarrow> (string \<times> jsval) list" where
  "own_props (JObj kvs) = kvs"
| "own_props (JArr xs) = map (\<lambda>i. (show_nat i, xs ! i)) [0 ..< length xs]"
| "own_props (JStr s) = map (\<lambda>i. (show_nat i, JStr [s ! i])) [0 ..< length s]"
| "own_props v = []"

definition spread_into :: "(string \<times> jsval) list \<Rightarrow> jsval \<Rightarrow> (string \<times> jsval) list" where
  "spread_into base v = foldl (\<lambda>acc kv. obj_set acc (fst kv) (snd kv)) base (own_props v)"

definition empty_section :: "string \<Rightarrow> jsval" where
  "empty_section title = JObj [(''title'', JStr title), (''rows'', JArr [])]"

definition defaultMemo :: "(string \<times> jsval) list" where
  "defaultMemo =
     [(''executiveSummary'', JStr ''Pending generation...''),
      (''investmentRecommendation'', JStr ''HOLD''),
      (''recommendationRationale'', JStr ''Insufficient data for recommendation.''),
      (''dealMerits'', JArr []),
      (''investmentThesis'', JArr []),
      (''keyRisks'', JArr []),
      (''riskMitigation'', JStr ''N/A''),
      (''marketOverview'', JStr ''N/A''),
      (''competitiveLandscape'', JStr ''N/A''),
      (''customerAnalysis'', JStr ''N/A''),
      (''operationalUpside'', JStr ''N/A'')]"

definition default_financialModels :: jsval where
  "default_financialModels =
     JObj [(''years'', JArr [JStr ''LTM'']),
           (''incomeStatement'', empty_section ''Income Statement''),
           (''balanceSheet'', empty_section ''Balance Sheet''),
           (''cashFlow'', empty_section ''Cash Flow'')]"

definition default_lboModel :: jsval where
  "default_lboModel =
     JObj [(''entryMultiple'', JNum 0),
           (''exitMultiple'', JNum 0),
           (''irr'', JNum 0),
           (''moic'', JNum 0),
           (''debttoEquity'', JNum 0)]"

definition default_lboDetailed :: jsval where
  "default_lboDetailed =
     JObj [(''assumptions'', JArr []),
           (''sources'', JArr []),
           (''uses'', JArr []),
           (''debtSchedule'', empty_section ''Debt Schedule''),
           (''projectedReturns'', empty_section ''Returns'')]"

definition null_TypeError :: thrown where
  "null_TypeError = ErrorObj ''Cannot read properties of null'' None"

definition sanitizeDealData :: "jsval \<Rightarrow> string \<Rightarrow> thrown + jsval" where
  "sanitizeDealData data companyName =
     (if data = JNull then Inl null_TypeError
      else Inr (JObj
        [(''companyName'',
            lor (Some (lor (field data ''companyName'') (JStr companyName))) (JStr ''Target Company'')),
         (''sector'', lor (field data ''sector'') (JStr ''Unknown Sector'')),
         (''location'', lor (field data ''location'') (JStr ''N/A'')),
         (''ebitda'', lor (field data ''ebitda'') (JNum 0)),
         (''revenue'', lor (field data ''revenue'') (JNum 0)),
         (''askingMultiple'', lor (field data ''askingMultiple'') (JNum 0)),
         (''impliedValue'', lor (field data ''impliedValue'') (JNum 0)),
         (''financialModels'', lor (field data ''financialModels'') default_financialModels),
         (''lboModel'', lor (field data ''lboModel'') default_lboModel),
         (''lboDetailed'', lor (field data ''lboDetailed'') default_lboDetailed),
         (''memo'', JObj (spread_into defaultMemo (lor (field data ''memo'') (JObj [])))),
         (''sensitivityAnalysis'', lor (field data ''sensitivityAnalysis'') (JArr [])),
         (''comparables'', lor (field data ''comparables'') (JArr [])),
         (''candidatesAnalyzed'', lor (field data ''candidatesAnalyzed'') (JArr [])),
         (''groundingUrls'', lor (field data ''groundingUrls'') (JArr [])),
         (''deliverables'', lor (field data ''deliverables'') (JArr []))]))"




section \<open>generateDealStructure\<close>

text \<open>
  The hosted model is the parameter \<open>generateContent\<close>: from what the prompt is built of
  (the company name, the raw data and the first three portfolio companies) to the
  rejection reason of the call or the \<^verbatim>\<open>response.text\<close> it resolves with, which may be
  \<^verbatim>\<open>undefined\<close>.  The candidates are not part of the prompt.  An assignment to a property of
  a value that is not an object cannot occur: \<open>sanitizeDealData\<close> returns objects.
\<close>

fun assign_prop :: "jsval \<Rightarrow> string \<Rightarrow> jsval \<Rightarrow> jsval" where
  "assign_prop (JObj kvs) k v = JObj (obj_set kvs k v)"
| "assign_prop w k v = w"

definition text_or :: "string option \<Rightarrow> string \<Rightarrow> string" where
  "text_or t d = (case t of None \<Rightarrow> d | Some s \<Rightarrow> if s = [] then d else s)"

definition generateDealStructure ::
  "(string \<Rightarrow> string \<Rightarrow> 'p list \<Rightarrow> thrown + string option) \<Rightarrow>
   string \<Rightarrow> string \<Rightarrow> string list \<Rightarrow> 'p list \<Rightarrow> thrown + jsval" where
  "generateDealStructure generateContent companyName rawData candidates portfolioContext =
     (case
        (case generateContent companyName rawData (take 3 portfolioContext) of
           Inl e \<Rightarrow> Inl e
         | Inr response_text \<Rightarrow>
             (case cleanAndParseJSON (text_or response_text ''{}'') of
                Inl e \<Rightarrow> Inl e
              | Inr rawJSON \<Rightarrow>
                  (case sanitizeDealData rawJSON companyName of
                     Inl e \<Rightarrow> Inl e
                   | Inr data \<Rightarrow>
                       Inr (assign_prop data ''candidatesAnalyzed'' (JArr (map JStr candidates))))))
      of
        Inl error \<Rightarrow> Inl (new_Error (''Structure Generation Failed: '' @ message_or_String error))
      | Inr data \<Rightarrow> Inr data)"

section \<open>The shape of a Deal Record\<close>













text \<open>The record that \<open>sanitizeDealData\<close> is documented to return for the empty object.\<close>

definition fully_defaulted :: "string \<Rightarrow> jsval" where
  "fully_defaulted name =
     JObj [(''companyName'', JStr (if name = [] then ''Target Company'' else name)),
           (''sector'', JStr ''Unknown Sector''),
           (''location'', JStr ''N/A''),
           (''ebitda'', JNum 0),
           (''revenue'', JNum 0),
           (''askingMultiple'', JNum 0),
           (''impliedValue'', JNum 0),
           (''financialModels'', default_financialModels),
           (''lboModel'', default_lboModel),
           (''lboDetailed'', default_lboDetailed),
           (''memo'', JObj defaultMemo),
           (''sensitivityAnalysis'', JArr []),
           (''comparables'', JArr []),
           (''candidatesAnalyzed'', JArr []),
           (''groundingUrls'', JArr []),
           (''deliverables'', JArr [])]"

section \<open>The repair routine as the specification words it\<close>

text \<open>
  The four steps of the repair as the specification lists them.  A quote is unescaped in
  the sense of JSON: it is not the character that a backslash escapes, so a quote after
  an escaped backslash is unescaped.  \<open>esc\<close> says that the character read before was a
  backslash that escapes the next one.  The stack of expected closers has its top at the
  head of the list.
\<close>

definition drop_trailing_comma :: "string \<Rightarrow> string" where
  "drop_trailing_comma t = (if t \<noteq> [] \<and> last t = CHR '','' then butlast t else t)"

fun unescaped_quotes :: "bool \<Rightarrow> string \<Rightarrow> nat" where
  "unescaped_quotes esc [] = 0"
| "unescaped_quotes esc (c # cs) =
     (if esc then unescaped_quotes False cs
      else if c = backslash then unescaped_quotes True cs
      else (if c = dquote then 1 else 0) + unescaped_quotes False cs)"

definition close_dangling_string :: "string \<Rightarrow> string" where
  "close_dangling_string t = (if odd (unescaped_quotes False t) then t @ [dquote] else t)"

fun on_structural :: "char \<Rightarrow> string \<Rightarrow> string" where
  "on_structural c stack =
     (if c = CHR ''{'' then CHR ''}'' # stack
      else if c = CHR ''['' then CHR '']'' # stack
      else if c = CHR ''}'' \<or> c = CHR '']'' then
        (case stack of [] \<Rightarrow> stack | expected # rest \<Rightarrow> if expected = c then rest else stack)
      else stack)"

fun expected_closers :: "bool \<Rightarrow> bool \<Rightarrow> string \<Rightarrow> string \<Rightarrow> string" where
  "expected_closers esc inside stack [] = stack"
| "expected_closers esc inside stack (c # cs) =
     (if esc then
        (if inside then expected_closers False inside stack cs
         else expected_closers False inside (on_structural c stack) cs)
      else if c = dquote then expected_closers False (\<not> inside) stack cs
      else if inside then expected_closers (c = backslash) inside stack cs
      else expected_closers (c = backslash) inside (on_structural c stack) cs)"

definition repair_spec :: "string \<Rightarrow> string" where
  "repair_spec text =
     (let a = drop_trailing_comma (trim text);
          b = close_dangling_string a
      in b @ expected_closers False False [] b)"

section \<open>The loops of repairJSON on lists\<close>

text \<open>
  What the two index loops of \<open>repairJSON\<close> compute, by recursion on the text with the
  character before the current one: the source takes a quote for a delimiter when that
  character is not a backslash.
\<close>

definition prev_char :: "string \<Rightarrow> nat \<Rightarrow> char option" where
  "prev_char s i = (if i = 0 then None else Some (s ! (i - 1)))"

definition quote_after :: "char option \<Rightarrow> char \<Rightarrow> bool" where
  "quote_after prev c = (c = dquote \<and> prev \<noteq> Some backslash)"

fun quotes_counted :: "char option \<Rightarrow> string \<Rightarrow> nat" where
  "quotes_counted prev [] = 0"
| "quotes_counted prev (c # cs) =
     (if quote_after prev c then 1 else 0) + quotes_counted (Some c) cs"

fun closers_stacked :: "char option \<Rightarrow> bool \<Rightarrow> string \<Rightarrow> string \<Rightarrow> string" where
  "closers_stacked prev inside stack [] = stack"
| "closers_stacked prev inside stack (c # cs) =
     (if quote_after prev c then closers_stacked (Some c) (\<not> inside) stack cs
      else if inside then closers_stacked (Some c) inside stack cs
      else closers_stacked (Some c) inside (on_structural c stack) cs)"

text \<open>Two backslashes next to each other.\<close>

fun adjacent_backslashes :: "string \<Rightarrow> bool" where
  "adjacent_backslashes [] = False"
| "adjacent_backslashes [x] = False"
| "adjacent_backslashes (x # y # ys) =
     ((x = backslash \<and> y = backslash) \<or> adjacent_backslashes (y # ys))"

section \<open>Application state (types.ts, App.tsx)\<close>

datatype AgentRole = MD | VP | ASSOCIATE | SCOUT | COMPS | DILIGENCE | DESIGN

datatype AgentStatus = IDLE | THINKING | WORKING | COMPLETED | ERROR

record Agent =
  agent_id :: string
  role :: AgentRole
  name :: string
  status :: AgentStatus
  currentTask :: "string option"
  description :: string

record AppError =
  err_message :: string
  err_stack :: "string option"
  err_context :: "string option"

text \<open>
  A log entry.  Its \<^verbatim>\<open>id\<close> and \<^verbatim>\<open>timestamp\<close> are read from the clock and the random
  generator and are left out of the record, as are the identifiers and timestamps of
  messages and the two dates of a deal room.
\<close>

record LogEntry =
  traceId :: "string option"
  agentName :: string
  log_role :: AgentRole
  log_message :: string
  log_status :: AgentStatus
  latency :: "int option"
  errorDetails :: "AppError option"

datatype MessageRole = User | Model | System

record FileAttachment =
  file_name :: string
  file_type :: string
  file_data :: string

record GeneratedAttachment =
  att_type :: string
  att_url :: string

record Message =
  dealId :: "string option"
  msg_role :: MessageRole
  content :: string
  sender :: "string option"
  attachments :: "GeneratedAttachment list option"
  inputAttachments :: "FileAttachment list option"
  suggestedActions :: "string list option"

record DealRoom =
  room_id :: string
  title :: jsval
  stage :: string
  room_data :: jsval
  tags :: "string list"
  priority :: string

record AppState =
  agents :: "Agent list"
  logs :: "LogEntry list"
  messages :: "Message list"
  deals :: "DealRoom list"
  activeDealId :: "string option"
  portfolio :: "jsval list"
  isProcessing :: bool
  activeEdge :: "string option"

definition INITIAL_AGENTS :: "Agent list" where
  "INITIAL_AGENTS =
     [\<lparr>agent_id = ''1'', role = MD, name = ''Athena (MD)'', status = IDLE,
        currentTask = None, description = ''Strategy & Risk''\<rparr>,
      \<lparr>agent_id = ''2'', role = VP, name = ''Marcus (VP)'', status = IDLE,
        currentTask = None, description = ''Orchestration''\<rparr>,
      \<lparr>agent_id = ''3'', role = ASSOCIATE, name = ''Ken (Associate)'', status = IDLE,
        currentTask = None, description = ''Modeling''\<rparr>,
      \<lparr>agent_id = ''4'', role = SCOUT, name = ''Scout-Alpha'', status = IDLE,
        currentTask = None, description = ''Data Mining''\<rparr>,
      \<lparr>agent_id = ''5'', role = DILIGENCE, name = ''Sarah (Diligence)'', status = IDLE,
        currentTask = None, description = ''Doc Analysis''\<rparr>,
      \<lparr>agent_id = ''6'', role = COMPS, name = ''Comps-Beta'', status = IDLE,
        currentTask = None, description = ''Market Multiples''\<rparr>,
      \<lparr>agent_id = ''7'', role = DESIGN, name = ''Sienna (Design)'', status = IDLE,
        currentTask = None, description = ''Visual Assets''\<rparr>]"

text \<open>
  \<^verbatim>\<open>updateAgent(role, { status, currentTask })\<close>: every call of the source gives a
  status; the task is overwritten only when the call gives one.
\<close>

definition merge_agent :: "AgentStatus \<Rightarrow> string option \<Rightarrow> Agent \<Rightarrow> Agent" where
  "merge_agent st task a =
     a\<lparr>status := st,
       currentTask := (case task of None \<Rightarrow> currentTask a | Some t \<Rightarrow> Some t)\<rparr>"

definition updateAgent :: "AgentRole \<Rightarrow> AgentStatus \<Rightarrow> string option \<Rightarrow> AppState \<Rightarrow> AppState" where
  "updateAgent r st task s =
     s\<lparr>agents := map (\<lambda>a. if role a = r then merge_agent st task a else a) (agents s)\<rparr>"

definition updateAllAgents :: "AgentStatus \<Rightarrow> AppState \<Rightarrow> AppState" where
  "updateAllAgents st s = s\<lparr>agents := map (merge_agent st None) (agents s)\<rparr>"

definition setLogs_append :: "LogEntry \<Rightarrow> AppState \<Rightarrow> AppState" where
  "setLogs_append e s = s\<lparr>logs := logs s @ [e]\<rparr>"

definition setActiveEdge :: "string option \<Rightarrow> AppState \<Rightarrow> AppState" where
  "setActiveEdge e s = s\<lparr>activeEdge := e\<rparr>"

definition setIsProcessing :: "bool \<Rightarrow> AppState \<Rightarrow> AppState" where
  "setIsProcessing b s = s\<lparr>isProcessing := b\<rparr>"

definition setActiveDealId :: "string option \<Rightarrow> AppState \<Rightarrow> AppState" where
  "setActiveDealId i s = s\<lparr>activeDealId := i\<rparr>"

text \<open>
  \<^verbatim>\<open>addMessage\<close> tags the message with the \<^verbatim>\<open>activeDealId\<close> of the render in which the
  running handler was created, the first argument here.
\<close>

definition addMessage ::
  "string option \<Rightarrow> MessageRole \<Rightarrow> string \<Rightarrow> string option \<Rightarrow> GeneratedAttachment list option \<Rightarrow>
   FileAttachment list option \<Rightarrow> string list option \<Rightarrow> AppState \<Rightarrow> AppState" where
  "addMessage closure_dealId r c from atts inputs actions s =
     s\<lparr>messages := messages s @
        [\<lparr>dealId = closure_dealId, msg_role = r, content = c, sender = from,
          attachments = atts, inputAttachments = inputs, suggestedActions = actions\<rparr>]\<rparr>"

text \<open>\<^verbatim>\<open>!activeDealId\<close>\<close>

definition no_active_deal :: "string option \<Rightarrow> bool" where
  "no_active_deal i = (case i of None \<Rightarrow> True | Some x \<Rightarrow> x = [])"

definition updateActiveDeal :: "string option \<Rightarrow> jsval \<Rightarrow> jsval option \<Rightarrow> AppState \<Rightarrow> AppState" where
  "updateActiveDeal closure_dealId updates titleOverride s =
     (if no_active_deal closure_dealId then s
      else s\<lparr>deals :=
        map (\<lambda>d. if Some (room_id d) = closure_dealId
                  then d\<lparr>title := lor titleOverride (title d),
                         room_data := JObj (spread_into (own_props (room_data d)) updates)\<rparr>
                  else d)
            (deals s)\<rparr>)"

definition new_room_data :: "string \<Rightarrow> jsval" where
  "new_room_data t =
     JObj [(''companyName'', JStr t),
           (''sector'', JStr ''TBD''),
           (''ebitda'', JNum 0),
           (''revenue'', JNum 0),
           (''askingMultiple'', JNum 0),
           (''impliedValue'', JNum 0),
           (''lboModel'', default_lboModel),
           (''memo'', JObj
              [(''executiveSummary'', JStr ''Pending...''),
               (''investmentRecommendation'', JStr ''HOLD''),
               (''recommendationRationale'', JStr ''Data needed.''),
               (''dealMerits'', JArr []),
               (''investmentThesis'', JArr []),
               (''keyRisks'', JArr []),
               (''riskMitigation'', JStr ''N/A''),
               (''marketOverview'', JStr ''N/A''),
               (''competitiveLandscape'', JStr ''N/A''),
               (''customerAnalysis'', JStr ''N/A''),
               (''operationalUpside'', JStr ''N/A'')])]"

text \<open>\<^verbatim>\<open>createNewDealRoom(title)\<close>; the new id, \<^verbatim>\<open>Date.now().toString()\<close>, is given.\<close>

definition createNewDealRoom :: "string \<Rightarrow> string \<Rightarrow> AppState \<Rightarrow> AppState" where
  "createNewDealRoom newId t s =
     s\<lparr>deals := deals s @
        [\<lparr>room_id = newId, title = JStr t, stage = ''Sourcing'', room_data = new_room_data t,
          tags = [], priority = ''Medium''\<rparr>]\<rparr>"

section \<open>runStep\<close>

text \<open>
  \<^verbatim>\<open>INITIAL_AGENTS.find(a => a.role === agentRole)?.name || "Unknown"\<close>
\<close>

definition agent_name_of :: "AgentRole \<Rightarrow> string" where
  "agent_name_of r =
     (case List.find (\<lambda>a. role a = r) INITIAL_AGENTS of
        None \<Rightarrow> ''Unknown''
      | Some a \<Rightarrow> if name a = [] then ''Unknown'' else name a)"

text \<open>
  An asynchronous call on the application state: the state it leaves, and the value it
  resolves with (\<open>Inr\<close>) or the reason it rejects with (\<open>Inl\<close>).
\<close>

type_synonym 'a action = "AppState \<Rightarrow> (thrown + 'a) \<times> AppState"

text \<open>
  \<open>runStep\<close> up to its \<^verbatim>\<open>await fn()\<close>, and from there on.  The wrapped work is given by how
  it settles; \<open>duration\<close> is \<^verbatim>\<open>Math.round(performance.now() - startTime)\<close>.
\<close>

definition runStep_begin :: "AgentRole \<Rightarrow> string \<Rightarrow> AppState \<Rightarrow> AppState" where
  "runStep_begin agentRole descr s = updateAgent agentRole WORKING (Some descr) s"

definition runStep_settle ::
  "AgentRole \<Rightarrow> string \<Rightarrow> thrown + 'a \<Rightarrow> int \<Rightarrow> string \<Rightarrow> 'a action" where
  "runStep_settle agentRole descr settled duration trace s =
     (case settled of
        Inr result \<Rightarrow>
          (Inr result,
           updateAgent agentRole IDLE (Some ''Standby'')
             (setLogs_append
                \<lparr>traceId = Some trace, agentName = agent_name_of agentRole,
                 log_role = agentRole, log_message = descr @ '' - Completed'',
                 log_status = COMPLETED, latency = Some duration, errorDetails = None\<rparr> s))
      | Inl error \<Rightarrow>
          (Inl error,
           updateAgent agentRole ERROR (Some ''Error encountered'')
             (setLogs_append
                \<lparr>traceId = Some trace, agentName = agent_name_of agentRole,
                 log_role = agentRole, log_message = ''FAILED: '' @ descr,
                 log_status = ERROR, latency = Some duration,
                 errorDetails = Some \<lparr>err_message = message_or_String error,
                                       err_stack = stack_of error,
                                       err_context = Some descr\<rparr>\<rparr> s)))"

definition runStep ::
  "AgentRole \<Rightarrow> string \<Rightarrow> thrown + 'a \<Rightarrow> int \<Rightarrow> string \<Rightarrow> 'a action" where
  "runStep agentRole descr settled duration trace s =
     runStep_settle agentRole descr settled duration trace (runStep_begin agentRole descr s)"

section \<open>handleUserMessage\<close>

text \<open>
  The steps of a run are chained as the \<^verbatim>\<open>await\<close>s of the handler are: a rejected step
  skips what follows it, and the state changes made before it stay.
\<close>

definition and_then :: "'a action \<Rightarrow> ('a \<Rightarrow> 'b action) \<Rightarrow> 'b action" where
  "and_then m f s = (case m s of (Inl e, s') \<Rightarrow> (Inl e, s') | (Inr v, s') \<Rightarrow> f v s')"

definition perform :: "(AppState \<Rightarrow> AppState) list \<Rightarrow> unit action" where
  "perform fs s = (Inr (), foldl (\<lambda>st f. f st) s fs)"

definition throw :: "thrown \<Rightarrow> 'a action" where
  "throw e s = (Inl e, s)"

definition resolve :: "'a \<Rightarrow> 'a action" where
  "resolve v s = (Inr v, s)"

text \<open>
  The services of geminiService.ts that the handler awaits, as functions of their
  arguments to the way the call settles; where the source builds an argument string from
  values of the record, the service is given those values.  With them: the latency that
  \<open>runStep\<close> measures for a step, the identifier of a new deal room, and the built-in
  conversions \<^verbatim>\<open>String\<close> (of template literals) and \<^verbatim>\<open>JSON.stringify\<close>.
  The records that \<^verbatim>\<open>generateDealStructure\<close> and \<^verbatim>\<open>analyzeDocument\<close> resolve with are
  objects by their TypeScript types, given here by their entries.
\<close>

type_synonym object = "(string \<times> jsval) list"

record Services =
  sv_getMDStrategy :: "string \<Rightarrow> string \<Rightarrow> thrown + string"
  sv_scoutPotentialTargets :: "string \<Rightarrow> thrown + string list"
  sv_selectBestTarget :: "string list \<Rightarrow> string \<Rightarrow> thrown + string"
  sv_performDeepDive :: "string \<Rightarrow> thrown + (string \<times> string list)"
  sv_generateDealStructure :: "jsval \<Rightarrow> string \<Rightarrow> string list \<Rightarrow> jsval list \<Rightarrow> thrown + object"
  sv_verifyLocation :: "jsval option \<Rightarrow> thrown + string list"
  sv_generateConceptImage :: "jsval option \<Rightarrow> jsval option \<Rightarrow> thrown + string option"
  sv_getMDFinalOpinion :: "object \<Rightarrow> string \<Rightarrow> string \<Rightarrow> thrown + string"
  sv_analyzeDocument :: "FileAttachment list \<Rightarrow> string \<Rightarrow> thrown + object"
  sv_elapsed :: "AgentRole \<Rightarrow> string \<Rightarrow> int"
  sv_newId :: string
  sv_String :: "jsval option \<Rightarrow> string"
  sv_stringify :: "object \<Rightarrow> string"

definition await_step :: "Services \<Rightarrow> AgentRole \<Rightarrow> string \<Rightarrow> thrown + 'a \<Rightarrow> string \<Rightarrow> 'a action" where
  "await_step sv agentRole descr settled trace =
     runStep agentRole descr settled (sv_elapsed sv agentRole descr) trace"

text \<open>\<^verbatim>\<open>xs.join(", ")\<close>\<close>

fun join_comma :: "string list \<Rightarrow> string" where
  "join_comma [] = []"
| "join_comma [x] = x"
| "join_comma (x # y # ys) = x @ '', '' @ join_comma (y # ys)"

definition field_truthy :: "object \<Rightarrow> string \<Rightarrow> bool" where
  "field_truthy obj k = (case map_of obj k of None \<Rightarrow> False | Some w \<Rightarrow> truthy w)"

text \<open>
  The sourcing flow: the \<^verbatim>\<open>else\<close> branch of the handler.  \<open>closure_dealId\<close> and
  \<open>closure_portfolio\<close> are the \<^verbatim>\<open>activeDealId\<close> and \<^verbatim>\<open>portfolio\<close> of the render that
  created the handler.
\<close>

definition sourcing_after_structure ::
  "Services \<Rightarrow> string option \<Rightarrow> string \<Rightarrow> string \<Rightarrow> string \<Rightarrow> string list \<Rightarrow> object \<Rightarrow> unit action" where
  "sourcing_after_structure sv closure_dealId text currentMandate trace sources structuredData0 =
     and_then
       (if field_truthy structuredData0 ''companyName''
        then await_step sv SCOUT ''HQ Location Verification''
               (sv_verifyLocation sv (map_of structuredData0 ''companyName'')) trace
        else resolve [])
     (\<lambda>locationMaps.
     (let structuredData1 =
            obj_set structuredData0 ''groundingUrls'' (JArr (map JStr (sources @ locationMaps)));
          structuredData =
            (if length locationMaps > 0
             then obj_set structuredData1 ''location'' (JStr ''HQ Verified via Google Maps'')
             else structuredData1)
      in
     and_then
       (perform [updateActiveDeal closure_dealId (JObj structuredData)
                   (map_of structuredData ''companyName'')])
     (\<lambda>_.
     and_then
       (if field_truthy structuredData ''companyName''
        then and_then
               (await_step sv VP ''Generating Asset (Logo)''
                  (sv_generateConceptImage sv (map_of structuredData ''companyName'')
                     (map_of structuredData ''sector'')) trace)
               (\<lambda>imageUrl. resolve
                  (case imageUrl of
                     None \<Rightarrow> None
                   | Some url \<Rightarrow>
                       if url = [] then None
                       else Some \<lparr>att_type = ''image'', att_url = url\<rparr>))
        else resolve None)
     (\<lambda>imageAttachment.
     and_then
       (perform [setActiveEdge (Some ''ASSOCIATE-MD''),
                 updateAgent MD THINKING (Some ''Final Investment Committee Review...'')])
     (\<lambda>_.
     and_then
       (await_step sv MD ''Formulating Investment Opinion''
          (sv_getMDFinalOpinion sv structuredData currentMandate text) trace)
     (\<lambda>finalOpinion.
       perform [addMessage closure_dealId Model finalOpinion (Some ''Athena (MD)'')
                  (case imageAttachment of None \<Rightarrow> None | Some a \<Rightarrow> Some [a])
                  None
                  (Some [''Create Teaser for '' @ sv_String sv (map_of structuredData ''companyName''),
                         ''Run sensitivity analysis'',
                         ''Export CSV Model''])]))))))"

definition sourcing_after_scout ::
  "Services \<Rightarrow> string option \<Rightarrow> jsval list \<Rightarrow> string \<Rightarrow> string \<Rightarrow> string \<Rightarrow> string list \<Rightarrow> unit action" where
  "sourcing_after_scout sv closure_dealId closure_portfolio text currentMandate trace potentialTargets =
     and_then
       (perform
          [setLogs_append
             \<lparr>traceId = Some trace, agentName = ''Scout-Alpha'', log_role = SCOUT,
              log_message = ''Identified candidates: '' @ join_comma potentialTargets,
              log_status = COMPLETED, latency = None, errorDetails = None\<rparr>,
           updateAgent VP THINKING
             (Some (''Selecting best fit from: '' @ show_nat (length potentialTargets)
                    @ '' candidates...''))])
     (\<lambda>_.
     and_then
       (await_step sv VP ''Target Filtering & Selection''
          (sv_selectBestTarget sv potentialTargets text) trace)
     (\<lambda>bestTarget.
     and_then
       (perform
          [setActiveEdge (Some ''VP-SCOUT''),
           runStep_begin SCOUT
             (''Triangulated Deep Dive: '' @ bestTarget @ '' (Financials/News/Benchmarks)''),
           updateAgent COMPS WORKING (Some ''Spreading Multiples...'')])
     (\<lambda>_.
     and_then
       (runStep_settle SCOUT
          (''Triangulated Deep Dive: '' @ bestTarget @ '' (Financials/News/Benchmarks)'')
          (sv_performDeepDive sv bestTarget)
          (sv_elapsed sv SCOUT
             (''Triangulated Deep Dive: '' @ bestTarget @ '' (Financials/News/Benchmarks)''))
          trace)
     (\<lambda>deepDiveData.
     and_then
       (perform
          [setLogs_append
             \<lparr>traceId = Some trace, agentName = ''Comps-Beta'', log_role = COMPS,
              log_message = ''Comparable Set Analysis (Simulated)'',
              log_status = COMPLETED, latency = Some 150, errorDetails = None\<rparr>,
           updateAgent COMPS IDLE None,
           setActiveEdge (Some ''VP-ASSOCIATE'')])
     (\<lambda>_.
     and_then
       (await_step sv ASSOCIATE ''Constructing LBO & Financial Models (Gap Filling Active)''
          (sv_generateDealStructure sv (JStr bestTarget) (fst deepDiveData) potentialTargets
             closure_portfolio) trace)
       (sourcing_after_structure sv closure_dealId text currentMandate trace
          (snd deepDiveData)))))))"

definition zero_targets_error :: thrown where
  "zero_targets_error =
     new_Error ''Scout returned 0 targets. Try refining your search criteria.''"

definition sourcing_flow ::
  "Services \<Rightarrow> string option \<Rightarrow> jsval list \<Rightarrow> string \<Rightarrow> string \<Rightarrow> string \<Rightarrow> unit action" where
  "sourcing_flow sv closure_dealId closure_portfolio text currentMandate trace =
     and_then
       (perform
          (if no_active_deal closure_dealId
           then [createNewDealRoom (sv_newId sv) ''Sourcing Scan'',
                 setActiveDealId (Some (sv_newId sv))]
           else []))
     (\<lambda>_.
     and_then
       (await_step sv MD ''Analyzing Mandate & Strategy''
          (sv_getMDStrategy sv text currentMandate) trace)
     (\<lambda>mdStrategy.
     and_then
       (perform
          [addMessage closure_dealId Model mdStrategy (Some ''Athena (MD)'') None None None,
           updateAgent MD IDLE None,
           updateAgent VP WORKING (Some ''Dispatching Scout Swarm...''),
           setActiveEdge (Some ''MD-VP'')])
     (\<lambda>_.
     and_then
       (await_step sv SCOUT ''Market Scan & Sourcing (Live Web)''
          (sv_scoutPotentialTargets sv mdStrategy) trace)
     (\<lambda>potentialTargets.
     and_then
       (perform [setActiveEdge (Some ''VP-SCOUT'')])
     (\<lambda>_.
       if length potentialTargets = 0 then throw zero_targets_error
       else sourcing_after_scout sv closure_dealId closure_portfolio text currentMandate trace
              potentialTargets)))))"

text \<open>The document-analysis flow: the \<^verbatim>\<open>if\<close> branch of the handler.\<close>

definition document_flow ::
  "Services \<Rightarrow> string option \<Rightarrow> jsval list \<Rightarrow> string \<Rightarrow> FileAttachment list \<Rightarrow> string \<Rightarrow> string \<Rightarrow>
   unit action" where
  "document_flow sv closure_dealId closure_portfolio text files currentMandate trace =
     (let dealContextId =
            (if no_active_deal closure_dealId then Some (sv_newId sv) else closure_dealId)
      in
     and_then
       (perform
          ((if no_active_deal closure_dealId
            then [addMessage closure_dealId System
                    ''Starting new Diligence Room for document analysis...'' (Some ''SYSTEM'')
                    None None None,
                  createNewDealRoom (sv_newId sv) ''New Deal (Pending Analysis)'',
                  setActiveDealId (Some (sv_newId sv))]
            else []) @
           [setActiveEdge (Some ''MD-DILIGENCE''),
            addMessage closure_dealId System
              ''Documents detected. Activating Diligence Agent for analysis...'' (Some ''SYSTEM'')
              None None None]))
     (\<lambda>_.
     and_then
       (await_step sv DILIGENCE ''Analyzing & Extracting Data from Documents''
          (sv_analyzeDocument sv files text) trace)
     (\<lambda>analysisResult.
     and_then
       (perform [setActiveEdge (Some ''DILIGENCE-ASSOCIATE'')])
     (\<lambda>_.
     and_then
       (await_step sv ASSOCIATE ''Building Financial Model from Extracted Data''
          (sv_generateDealStructure sv
             (lor (map_of analysisResult ''companyName'') (JStr ''Target''))
             (sv_stringify sv analysisResult) [] closure_portfolio) trace)
     (\<lambda>structuredData.
     and_then
       (perform
          [updateActiveDeal closure_dealId (JObj structuredData)
             (map_of analysisResult ''companyName''),
           (\<lambda>s. s\<lparr>deals := map (\<lambda>d. if Some (room_id d) = dealContextId
                                       then d\<lparr>stage := ''Diligence''\<rparr> else d) (deals s)\<rparr>),
           setActiveEdge (Some ''ASSOCIATE-MD''),
           updateAgent MD THINKING (Some ''Reviewing Diligence Findings...'')])
     (\<lambda>_.
     and_then
       (await_step sv MD ''Formulating Investment Opinion''
          (sv_getMDFinalOpinion sv structuredData currentMandate
             (if text = [] then ''Analyze this deal'' else text)) trace)
     (\<lambda>finalOpinion.
       perform [addMessage closure_dealId Model finalOpinion (Some ''Athena (MD)'') None None
                  (Some [''Create Pitch Deck'', ''Generate One Pager'',
                         ''Export LBO Model''])])))))))"

text \<open>
  \<^verbatim>\<open>error instanceof Error ? error.message : "Unknown error"\<close>
\<close>

definition message_or_unknown :: "thrown \<Rightarrow> string" where
  "message_or_unknown e = (case message_of e of None \<Rightarrow> ''Unknown error'' | Some m \<Rightarrow> m)"

definition pipeline_failed_text :: "string \<Rightarrow> string" where
  "pipeline_failed_text errMessage =
     ''Pipeline Execution Failed: '' @ errMessage @ ''. '' @ [CHR 0x0A, CHR 0x0A]
       @ ''Check the System Log for details.''"

text \<open>
  The handler, for the state \<open>s\<close> of the render that created it: the \<^verbatim>\<open>try\<close> with its
  \<^verbatim>\<open>catch\<close> and its \<^verbatim>\<open>finally\<close>.  \<open>currentMandate\<close> and \<open>trace\<close> are what
  \<^verbatim>\<open>getFormattedMandate()\<close> and \<^verbatim>\<open>generateTraceId()\<close> return; \<open>files\<close> is the argument
  \<^verbatim>\<open>attachments\<close>, \<open>None\<close> when it is left out.
\<close>

definition handleUserMessage ::
  "Services \<Rightarrow> string \<Rightarrow> string \<Rightarrow> string \<Rightarrow> FileAttachment list option \<Rightarrow> AppState \<Rightarrow> AppState" where
  "handleUserMessage sv currentMandate trace text files s =
     (let closure_dealId = activeDealId s;
          closure_portfolio = portfolio s;
          s1 = setIsProcessing True
                 (addMessage closure_dealId User text None None files None s);
          (outcome, s2) =
            (case files of
               None \<Rightarrow> sourcing_flow sv closure_dealId closure_portfolio text currentMandate trace s1
             | Some fs \<Rightarrow>
                 if length fs > 0
                 then document_flow sv closure_dealId closure_portfolio text fs currentMandate trace s1
                 else sourcing_flow sv closure_dealId closure_portfolio text currentMandate trace s1);
          s3 = (case outcome of
                  Inr u \<Rightarrow> s2
                | Inl error \<Rightarrow>
                    updateAllAgents ERROR
                      (addMessage closure_dealId System
                         (pipeline_failed_text (message_or_unknown error)) (Some ''SYSTEM'')
                         None None None s2))
      in setActiveEdge None (setIsProcessing False s3))"

section \<open>generateConceptImage\<close>

text \<open>
  The request that \<open>generateWithModel\<close> sends and the part of the response that is read:
  \<^verbatim>\<open>response.candidates?.[0]?.content?.parts || []\<close>, each part with or without
  \<^verbatim>\<open>inlineData\<close>, whose \<^verbatim>\<open>data\<close> may be undefined.
\<close>

record ImageRequest =
  req_model :: string
  req_text :: string
  aspectRatio :: string
  imageSize :: "string option"

record Part =
  inlineData :: "string option option"

record Content =
  parts :: "Part list option"

record Candidate =
  cand_content :: "Content option"

record ImageResponse =
  resp_candidates :: "Candidate list option"

definition parts_of :: "ImageResponse \<Rightarrow> Part list" where
  "parts_of response =
     (case resp_candidates response of
        None \<Rightarrow> []
      | Some cs \<Rightarrow>
          (case cs of
             [] \<Rightarrow> []
           | c # rest \<Rightarrow>
               (case cand_content c of
                  None \<Rightarrow> []
                | Some ct \<Rightarrow> (case parts ct of None \<Rightarrow> [] | Some ps \<Rightarrow> ps))))"

text \<open>The loop over the parts: the first part with inline data gives the data URI.\<close>

fun first_image :: "Part list \<Rightarrow> string option" where
  "first_image [] = None"
| "first_image (p # ps) =
     (case inlineData p of
        Some d \<Rightarrow> Some (''data:image/png;base64,'' @ (case d of None \<Rightarrow> ''undefined'' | Some x \<Rightarrow> x))
      | None \<Rightarrow> first_image ps)"

text \<open>\<^verbatim>\<open>s.includes(pat)\<close>\<close>

fun str_includes :: "string \<Rightarrow> string \<Rightarrow> bool" where
  "str_includes [] pat = (pat = [])"
| "str_includes (c # cs) pat = (is_prefix pat (c # cs) \<or> str_includes cs pat)"

text \<open>
  \<^verbatim>\<open>error.message?.includes('403') || error.message?.includes('PERMISSION_DENIED') ||
  error.message?.includes('Quota')\<close>
\<close>

definition permission_or_quota :: "thrown \<Rightarrow> bool" where
  "permission_or_quota error =
     (case message_of error of
        None \<Rightarrow> False
      | Some m \<Rightarrow> str_includes m ''403'' \<or> str_includes m ''PERMISSION_DENIED'' \<or> str_includes m ''Quota'')"

definition concept_text :: "string \<Rightarrow> string" where
  "concept_text prompt =
     ''A professional, modern, corporate logo for: '' @ prompt
       @ ''. Minimalist, high fidelity, 4k, white on dark background. Brand palette: Black and Gold.''"

definition concept_request :: "string \<Rightarrow> string \<Rightarrow> bool \<Rightarrow> ImageRequest" where
  "concept_request prompt model useAdvancedConfig =
     \<lparr>req_model = model, req_text = concept_text prompt, aspectRatio = ''1:1'',
      imageSize = (if useAdvancedConfig then Some ''1K'' else None)\<rparr>"

text \<open>
  \<open>generateConceptImage\<close>, with the hosted image model as the parameter
  \<open>generateContent\<close>.  The result is what the call settles with and the requests it
  sent, in order.  The client is constructed before the \<^verbatim>\<open>try\<close> and is taken to exist, as
  in the steps that ran before this one.
\<close>

definition generateConceptImage ::
  "(ImageRequest \<Rightarrow> thrown + ImageResponse) \<Rightarrow> string \<Rightarrow> (thrown + string option) \<times> ImageRequest list" where
  "generateConceptImage generateContent prompt =
     (let primary = concept_request prompt ''gemini-3-pro-image-preview'' True in
      case generateContent primary of
        Inr response \<Rightarrow> (Inr (first_image (parts_of response)), [primary])
      | Inl error \<Rightarrow>
          if permission_or_quota error then
            (let fallback = concept_request prompt ''gemini-2.5-flash-image'' False in
             case generateContent fallback of
               Inr fallbackResponse \<Rightarrow>
                 (Inr (first_image (parts_of fallbackResponse)), [primary, fallback])
             | Inl fallbackError \<Rightarrow> (Inr None, [primary, fallback]))
          else (Inr None, [primary]))"

section \<open>Hydration of the deal collection\<close>

fun matches_prefix :: "(char \<Rightarrow> bool) list \<Rightarrow> string \<Rightarrow> bool" where
  "matches_prefix [] s = True"
| "matches_prefix (p # ps) [] = False"
| "matches_prefix (p # ps) (c # cs) = (p c \<and> matches_prefix ps cs)"

definition iso_date_pattern :: "(char \<Rightarrow> bool) list" where
  "iso_date_pattern =
     [is_digit, is_digit, is_digit, is_digit, (\<lambda>c. c = CHR ''-''), is_digit, is_digit,
      (\<lambda>c. c = CHR ''-''), is_digit, is_digit, (\<lambda>c. c = CHR ''T''), is_digit, is_digit,
      (\<lambda>c. c = CHR '':''), is_digit, is_digit, (\<lambda>c. c = CHR '':''), is_digit, is_digit]"

text \<open>
  \<^verbatim>\<open>JSON.parse(text, dateReviver)\<close>: the reviver is applied to every value, the inner ones
  first, and turns a string that starts like an ISO date into a \<^verbatim>\<open>Date\<close>.
\<close>

fun revive :: "jsval \<Rightarrow> jsval" where
  "revive (JStr s) = (if matches_prefix iso_date_pattern s then JDate s else JStr s)"
| "revive (JArr xs) = JArr (map revive xs)"
| "revive (JObj kvs) = JObj (map (map_prod id revive) kvs)"
| "revive v = v"

definition JSON_parse_dates :: "string \<Rightarrow> string + jsval" where
  "JSON_parse_dates text = (case JSON_parse text of Inl e \<Rightarrow> Inl e | Inr v \<Rightarrow> Inr (revive v))"

definition legacy_room :: "jsval \<Rightarrow> string \<Rightarrow> jsval" where
  "legacy_room parsed now =
     JObj [(''id'', JStr ''legacy-migration''),
           (''title'', (case field parsed ''companyName'' of None \<Rightarrow> JNull | Some n \<Rightarrow> n)),
           (''stage'', JStr ''Diligence''),
           (''data'', parsed),
           (''createdAt'', JDate now),
           (''lastUpdated'', JDate now),
           (''tags'', JArr [JStr ''Migrated'']),
           (''priority'', JStr ''Medium'')]"

text \<open>\<^verbatim>\<open>parsed && parsed.companyName\<close>\<close>

definition has_company_name :: "jsval \<Rightarrow> bool" where
  "has_company_name parsed =
     (truthy parsed \<and> (case field parsed ''companyName'' of None \<Rightarrow> False | Some n \<Rightarrow> truthy n))"

text \<open>\<^verbatim>\<open>if (saved)\<close> on what \<^verbatim>\<open>getItem\<close> returned: a string that is not empty.\<close>

definition saved_text :: "string option \<Rightarrow> string option" where
  "saved_text x = (case x of None \<Rightarrow> None | Some t \<Rightarrow> if t = [] then None else Some t)"

text \<open>
  The initializer of the \<^verbatim>\<open>deals\<close> state: the body of its \<^verbatim>\<open>try\<close>, in which reading the
  store and parsing may throw, and the \<^verbatim>\<open>catch\<close> that returns the empty collection.
  \<open>now\<close> is the date of \<^verbatim>\<open>new Date()\<close>.
\<close>

definition deals_try :: "(string \<Rightarrow> thrown + string option) \<Rightarrow> string \<Rightarrow> thrown + jsval" where
  "deals_try getItem now =
     (case getItem ''didi_deals'' of
        Inl e \<Rightarrow> Inl e
      | Inr savedDeals \<Rightarrow>
          (case saved_text savedDeals of
             Some t \<Rightarrow> (case JSON_parse_dates t of Inl m \<Rightarrow> Inl (new_Error m) | Inr v \<Rightarrow> Inr v)
           | None \<Rightarrow>
               (case getItem ''didi_dealData'' of
                  Inl e \<Rightarrow> Inl e
                | Inr oldDealData \<Rightarrow>
                    (case saved_text oldDealData of
                       Some t \<Rightarrow>
                         (case JSON_parse_dates t of
                            Inl m \<Rightarrow> Inl (new_Error m)
                          | Inr parsed \<Rightarrow>
                              if has_company_name parsed
                              then Inr (JArr [legacy_room parsed now])
                              else Inr (JArr []))
                     | None \<Rightarrow> Inr (JArr [])))))"

definition deals_initializer :: "(string \<Rightarrow> thrown + string option) \<Rightarrow> string \<Rightarrow> jsval" where
  "deals_initializer getItem now =
     (case deals_try getItem now of Inl e \<Rightarrow> JArr [] | Inr v \<Rightarrow> v)"

section \<open>Entries written by a run, and example runs\<close>

text \<open>The log entry of a completed step, the messages and the placeholder room of a run.\<close>

definition completed_entry :: "Services \<Rightarrow> string \<Rightarrow> AgentRole \<Rightarrow> string \<Rightarrow> LogEntry" where
  "completed_entry sv trace r descr =
     \<lparr>traceId = Some trace, agentName = agent_name_of r, log_role = r,
      log_message = descr @ '' - Completed'', log_status = COMPLETED,
      latency = Some (sv_elapsed sv r descr), errorDetails = None\<rparr>"

definition user_message :: "string option \<Rightarrow> string \<Rightarrow> FileAttachment list option \<Rightarrow> Message" where
  "user_message cid text files =
     \<lparr>dealId = cid, msg_role = User, content = text, sender = None, attachments = None,
      inputAttachments = files, suggestedActions = None\<rparr>"

definition plain_message :: "string option \<Rightarrow> MessageRole \<Rightarrow> string \<Rightarrow> string \<Rightarrow> Message" where
  "plain_message cid r c from =
     \<lparr>dealId = cid, msg_role = r, content = c, sender = Some from, attachments = None,
      inputAttachments = None, suggestedActions = None\<rparr>"

definition sourcing_scan_room :: "string \<Rightarrow> DealRoom" where
  "sourcing_scan_room newId =
     \<lparr>room_id = newId, title = JStr ''Sourcing Scan'', stage = ''Sourcing'',
      room_data = new_room_data ''Sourcing Scan'', tags = [], priority = ''Medium''\<rparr>"

text \<open>
  A state with the initial agents and nothing stored; the services of a run in which the
  strategy call resolves and the scout finds no candidate, so that the later services are
  not reached; an image model whose primary identifier is refused for lack of permission
  while the fallback returns an image, and one that is unavailable; a store that holds a
  deal under the legacy key only.
\<close>

definition fresh_state :: AppState where
  "fresh_state =
     \<lparr>agents = INITIAL_AGENTS, logs = [], messages = [], deals = [], activeDealId = None,
      portfolio = [], isProcessing = False, activeEdge = None\<rparr>"

definition zero_scout_services :: Services where
  "zero_scout_services =
     \<lparr>sv_getMDStrategy = (\<lambda>text mandate. Inr ''Focus on healthcare services''),
      sv_scoutPotentialTargets = (\<lambda>directive. Inr []),
      sv_selectBestTarget = (\<lambda>targets text. Inl (new_Error ''not reached'')),
      sv_performDeepDive = (\<lambda>target. Inl (new_Error ''not reached'')),
      sv_generateDealStructure = (\<lambda>n raw cands pf. Inl (new_Error ''not reached'')),
      sv_verifyLocation = (\<lambda>n. Inl (new_Error ''not reached'')),
      sv_generateConceptImage = (\<lambda>n sec. Inl (new_Error ''not reached'')),
      sv_getMDFinalOpinion = (\<lambda>d m t. Inl (new_Error ''not reached'')),
      sv_analyzeDocument = (\<lambda>fs t. Inl (new_Error ''not reached'')),
      sv_elapsed = (\<lambda>r d. 120),
      sv_newId = ''1700000000000'',
      sv_String = (\<lambda>v. ''''),
      sv_stringify = (\<lambda>v. '''')\<rparr>"

definition quota_then_image :: "ImageRequest \<Rightarrow> thrown + ImageResponse" where
  "quota_then_image req =
     (if req_model req = ''gemini-3-pro-image-preview''
      then Inl (ErrorObj ''403 PERMISSION_DENIED: image model not enabled'' None)
      else Inr \<lparr>resp_candidates = Some [\<lparr>cand_content = Some \<lparr>parts = Some
                  [\<lparr>inlineData = None\<rparr>, \<lparr>inlineData = Some (Some ''iVBORw0KGgo='')\<rparr>]\<rparr>\<rparr>]\<rparr>)"

definition always_unavailable :: "ImageRequest \<Rightarrow> thrown + ImageResponse" where
  "always_unavailable req = Inl (ErrorObj ''503 Service Unavailable'' None)"

definition store_with_legacy_deal :: "string \<Rightarrow> thrown + string option" where
  \<open>store_with_legacy_deal key =
     (if key = ''didi_dealData'' then Inr (Some ''{"companyName":"Acme","ebitda":12}'')
      else Inr None)\<close>

section \<open>Properties of objects\<close>

lemma map_of_obj_set:
  "map_of (obj_set kvs k v) k' = (if k' = k then Some v else map_of kvs k')"
  by (induction kvs k v rule: obj_set.induct) auto















section \<open>The response sanitizer and the normalizer\<close>

text \<open>
  C9. For the empty text (the only falsy string) \<open>cleanAndParseJSON\<close> returns the empty
  object at once: the result is the same whatever the parser would do, so nothing is
  located, parsed or repaired, and no error is raised, although the parser itself rejects
  the empty text.
\<close>

theorem cleanAndParseJSON_empty_text:
  "cleanAndParseJSON [] = Inr (JObj []) \<and>
   cleanAndParseJSON_with parse [] = Inr (JObj []) \<and>
   JSON_parse [] = Inl ''Unexpected end of JSON input''"
  by (simp add: cleanAndParseJSON_def cleanAndParseJSON_with_def JSON_parse_def tokenize.simps)







text \<open>
  C10. Whenever \<open>generateDealStructure\<close> returns a record, its candidatesAnalyzed field is
  the candidates argument, whatever the model's JSON held there.
\<close>

theorem generateDealStructure_candidates:
  assumes "generateDealStructure generateContent companyName rawData candidates portfolioContext
             = Inr result"
  shows "field result ''candidatesAnalyzed'' = Some (JArr (map JStr candidates))"
proof -
  from assms obtain rawJSON d where
    s: "sanitizeDealData rawJSON companyName = Inr d" and
    a: "result = assign_prop d ''candidatesAnalyzed'' (JArr (map JStr candidates))"
    by (auto simp: generateDealStructure_def split: sum.splits)
  from s obtain kvs where "d = JObj kvs"
    by (auto simp: sanitizeDealData_def split: if_splits)
  with a show ?thesis by (simp add: map_of_obj_set)
qed

theorem generateDealStructure_candidates_witness:
  \<open>generateDealStructure (\<lambda>n r (p :: unit list). Inr (Some ''{"candidatesAnalyzed":["Zed"]}''))
       ''Acme'' ''raw data'' [''Acme'', ''Globex''] []
     = Inr (assign_prop (fully_defaulted ''Acme'') ''candidatesAnalyzed''
              (JArr [JStr ''Acme'', JStr ''Globex''])) \<and>
   field (assign_prop (fully_defaulted ''Acme'') ''candidatesAnalyzed''
              (JArr [JStr ''Acme'', JStr ''Globex''])) ''candidatesAnalyzed''
     = Some (JArr (map JStr [''Acme'', ''Globex'']))\<close>
proof -
  have h: \<open>generateDealStructure (\<lambda>n r (p :: unit list). Inr (Some ''{"candidatesAnalyzed":["Zed"]}''))
       ''Acme'' ''raw data'' [''Acme'', ''Globex''] []
     = Inr (assign_prop (fully_defaulted ''Acme'') ''candidatesAnalyzed''
              (JArr [JStr ''Acme'', JStr ''Globex'']))\<close>
    by code_simp
  show ?thesis
    using h generateDealStructure_candidates [OF h] by simp
qed

section \<open>The repair routine\<close>

lemma quote_at_quote_after:
  "quote_at s i = quote_after (prev_char s i) (s ! i)"
  by (auto simp: quote_at_def quote_after_def prev_char_def)

lemma drop_step: "i < length s \<Longrightarrow> drop i s = s ! i # drop (Suc i) s"
  by (simp add: Cons_nth_drop_Suc)

lemma prev_char_Suc: "prev_char s (Suc i) = Some (s ! i)"
  by (simp add: prev_char_def)

lemma count_quotes_loop_eq:
  "count_quotes_loop s i n = n + quotes_counted (prev_char s i) (drop i s)"
proof (induction s i n rule: count_quotes_loop.induct)
  case (1 repaired i quoteCount)
  show ?case
  proof (cases "i < length repaired")
    case True
    then show ?thesis
      using 1 [OF True]
      by (subst count_quotes_loop.simps)
         (simp add: drop_step [OF True] quote_at_quote_after prev_char_Suc)
  next
    case False
    then show ?thesis
      by (subst count_quotes_loop.simps) simp
  qed
qed

lemma balance_step_rev:
  "balance_step c stack = rev (on_structural c (rev stack))"
proof (cases stack rule: rev_cases)
  case Nil
  then show ?thesis by (simp add: balance_step_def)
next
  case (snoc ys y)
  then show ?thesis by (simp add: balance_step_def nth_append)
qed

lemma balance_loop_eq:
  "balance_loop s i inside stack =
     rev (closers_stacked (prev_char s i) inside (rev stack) (drop i s))"
proof (induction s i inside stack rule: balance_loop.induct)
  case (1 repaired i insideString stack)
  show ?case
  proof (cases "i < length repaired")
    case True
    then show ?thesis
      using 1 [OF True]
      by (subst balance_loop.simps)
         (simp add: drop_step [OF True] quote_at_quote_after prev_char_Suc balance_step_rev)
  next
    case False
    then show ?thesis
      by (subst balance_loop.simps) simp
  qed
qed

lemma append_closers_eq: "append_closers r stack = r @ rev stack"
proof (induction r stack rule: append_closers.induct)
  case (1 repaired stack)
  show ?case
  proof (cases stack rule: rev_cases)
    case Nil
    then show ?thesis by (subst append_closers.simps) simp
  next
    case (snoc ys y)
    then show ?thesis
      using 1 by (subst append_closers.simps) simp
  qed
qed

lemma endsWith_last: "endsWith t c = (t \<noteq> [] \<and> last t = c)"
  by (cases t rule: rev_cases) (simp_all add: endsWith_def)

lemma slice_butlast: "slice_0_m1 t = butlast t"
  by (simp add: slice_0_m1_def butlast_conv_take)


lemma repairJSON_on_lists:
  "repairJSON text =
     (let a = drop_trailing_comma (trim text);
          b = (if odd (quotes_counted None a) then a @ [dquote] else a)
      in b @ closers_stacked None False [] b)"
  by (simp add: repairJSON_def Let_def endsWith_last slice_butlast
      drop_trailing_comma_def count_quotes_loop_eq
      balance_loop_eq append_closers_eq prev_char_def odd_iff_mod_2_eq_one)

lemma adjacent_backslashes_Cons:
  "adjacent_backslashes (x # xs) =
     ((x = backslash \<and> xs \<noteq> [] \<and> hd xs = backslash) \<or> adjacent_backslashes xs)"
  by (cases xs) auto

lemma adjacent_backslashes_append:
  "adjacent_backslashes (xs @ ys) =
     (adjacent_backslashes xs \<or> adjacent_backslashes ys \<or>
      (xs \<noteq> [] \<and> ys \<noteq> [] \<and> last xs = backslash \<and> hd ys = backslash))"
proof (induction xs)
  case Nil
  then show ?case by simp
next
  case (Cons x xs)
  show ?case
  proof (cases xs)
    case Nil
    then show ?thesis by (cases ys) auto
  next
    case (Cons z zs)
    with Cons.IH show ?thesis by auto
  qed
qed

lemma adjacent_backslashes_rev: "adjacent_backslashes (rev xs) = adjacent_backslashes xs"
proof (induction xs)
  case Nil
  then show ?case by simp
next
  case (Cons x xs)
  show ?case
    using Cons.IH
    by (cases xs) (auto simp: adjacent_backslashes_append last_rev hd_rev)
qed

lemma adjacent_backslashes_dropWhile:
  "\<not> adjacent_backslashes xs \<Longrightarrow> \<not> adjacent_backslashes (dropWhile P xs)"
proof (induction xs)
  case Nil
  then show ?case by simp
next
  case (Cons x xs)
  then show ?case by (auto simp: adjacent_backslashes_Cons)
qed

lemma adjacent_backslashes_trim:
  "\<not> adjacent_backslashes xs \<Longrightarrow> \<not> adjacent_backslashes (trim xs)"
  by (simp add: trim_def adjacent_backslashes_rev adjacent_backslashes_dropWhile)

lemma adjacent_backslashes_butlast:
  "\<not> adjacent_backslashes xs \<Longrightarrow> \<not> adjacent_backslashes (butlast xs)"
proof (cases xs rule: rev_cases)
  case Nil
  then show ?thesis by simp
next
  case (snoc ys y)
  assume "\<not> adjacent_backslashes xs"
  with snoc show ?thesis by (simp add: adjacent_backslashes_append)
qed

lemma adjacent_backslashes_drop_comma:
  "\<not> adjacent_backslashes xs \<Longrightarrow> \<not> adjacent_backslashes (drop_trailing_comma xs)"
  by (simp add: drop_trailing_comma_def adjacent_backslashes_butlast)

lemma adjacent_backslashes_snoc_quote:
  "\<not> adjacent_backslashes xs \<Longrightarrow> \<not> adjacent_backslashes (xs @ [dquote])"
  by (simp add: adjacent_backslashes_append dquote_def backslash_def)

text \<open>
  Where no two backslashes are adjacent, a backslash before a quote escapes it, and the
  test of the source and the JSON reading agree.
\<close>

lemma quotes_counted_unescaped:
  assumes "\<not> adjacent_backslashes ((if esc then [backslash] else []) @ cs)"
    and "esc = (prev = Some backslash)"
  shows "quotes_counted prev cs = unescaped_quotes esc cs"
  using assms
proof (induction cs arbitrary: prev esc)
  case Nil
  then show ?case by simp
next
  case (Cons c cs)
  show ?case
  proof (cases esc)
    case True
    with Cons.prems have c: "c \<noteq> backslash" and r: "\<not> adjacent_backslashes (c # cs)"
      by auto
    have "quotes_counted (Some c) cs = unescaped_quotes False cs"
      using r c by (intro Cons.IH) (auto simp: adjacent_backslashes_Cons)
    with True Cons.prems(2) show ?thesis by (simp add: quote_after_def)
  next
    case False
    with Cons.prems have r: "\<not> adjacent_backslashes (c # cs)"
      by simp
    have "quotes_counted (Some c) cs = unescaped_quotes (c = backslash) cs"
      using r by (intro Cons.IH) (auto simp: adjacent_backslashes_Cons)
    with False Cons.prems(2) show ?thesis
      by (auto simp: quote_after_def dquote_def backslash_def)
  qed
qed

lemma closers_stacked_expected:
  assumes "\<not> adjacent_backslashes ((if esc then [backslash] else []) @ cs)"
    and "esc = (prev = Some backslash)"
  shows "closers_stacked prev inside stack cs = expected_closers esc inside stack cs"
  using assms
proof (induction cs arbitrary: prev esc inside stack)
  case Nil
  then show ?case by simp
next
  case (Cons c cs)
  show ?case
  proof (cases esc)
    case True
    with Cons.prems have c: "c \<noteq> backslash" and r: "\<not> adjacent_backslashes (c # cs)"
      by auto
    have "closers_stacked (Some c) i st cs = expected_closers False i st cs" for i st
      using r c by (intro Cons.IH) (auto simp: adjacent_backslashes_Cons)
    with True Cons.prems(2) show ?thesis by (simp add: quote_after_def)
  next
    case False
    with Cons.prems have r: "\<not> adjacent_backslashes (c # cs)"
      by simp
    have "closers_stacked (Some c) i st cs = expected_closers (c = backslash) i st cs" for i st
      using r by (intro Cons.IH) (auto simp: adjacent_backslashes_Cons)
    with False Cons.prems(2) show ?thesis
      by (auto simp: quote_after_def dquote_def backslash_def)
  qed
qed

text \<open>
  On a text without two adjacent backslashes \<open>repairJSON\<close> computes the four steps of
  the specification in their order.
\<close>

lemma repairJSON_refines_without_adjacent_backslashes:
  assumes "\<not> adjacent_backslashes text"
  shows "repairJSON text = repair_spec text"
proof -
  let ?a = "drop_trailing_comma (trim text)"
  have a: "\<not> adjacent_backslashes ?a"
    using assms by (simp add: adjacent_backslashes_trim adjacent_backslashes_drop_comma)
  have q: "quotes_counted None ?a = unescaped_quotes False ?a"
    using a by (intro quotes_counted_unescaped) simp_all
  let ?b = "close_dangling_string ?a"
  have b: "\<not> adjacent_backslashes ?b"
    using a by (simp add: close_dangling_string_def adjacent_backslashes_snoc_quote)
  have c: "closers_stacked None False [] ?b = expected_closers False False [] ?b"
    using b by (intro closers_stacked_expected) simp_all
  show ?thesis
    using q c by (simp add: repairJSON_on_lists repair_spec_def Let_def close_dangling_string_def)
qed

text \<open>
  C3, at a text on which the source departs from it.  The text is an object whose string
  value ends in an escaped backslash, cut off before its closing brace.  It has four
  unescaped quotes, so step (b) appends nothing and the repair of the specification,
  which adds the brace, parses.  The first loop of \<open>repairJSON\<close> takes the last quote for
  an escaped one, counts three and appends a quote; the repaired text does not parse and
  \<open>cleanAndParseJSON\<close> raises.
\<close>

theorem repairJSON_escaped_backslash:
  \<open>count_quotes_loop (''{"a":"x'' @ [backslash, backslash, dquote]) 0 0 = 3 \<and>
   unescaped_quotes False (''{"a":"x'' @ [backslash, backslash, dquote]) = 4 \<and>
   repairJSON (''{"a":"x'' @ [backslash, backslash, dquote])
     = ''{"a":"x'' @ [backslash, backslash, dquote] @ ''"}'' \<and>
   repair_spec (''{"a":"x'' @ [backslash, backslash, dquote])
     = ''{"a":"x'' @ [backslash, backslash, dquote] @ ''}'' \<and>
   JSON_parse (repair_spec (''{"a":"x'' @ [backslash, backslash, dquote]))
     = Inr (JObj [(''a'', JStr (''x'' @ [backslash]))]) \<and>
   cleanAndParseJSON (''{"a":"x'' @ [backslash, backslash, dquote])
     = Inl (ErrorObj ''JSON Parse Failed: Unexpected end of JSON input'' None)\<close>
  by code_simp

section \<open>Locating the payload\<close>

lemma indexOf_from_range: "indexOf_from i s c = -1 \<or> i \<le> indexOf_from i s c"
proof (induction s arbitrary: i)
  case Nil
  then show ?case by simp
next
  case (Cons x xs)
  show ?case using Cons [of "i + 1"] by auto
qed

lemma indexOf_from_skip:
  "c \<notin> set pre \<Longrightarrow> indexOf_from i (pre @ s) c = indexOf_from (i + int (length pre)) s c"
  by (induction pre arbitrary: i) (auto simp: algebra_simps)

lemma indexOf_at: "c \<notin> set pre \<Longrightarrow> indexOf (pre @ c # s) c = int (length pre)"
  by (simp add: indexOf_def indexOf_from_skip)

lemma indexOf_after:
  "c \<notin> set pre \<Longrightarrow> d \<noteq> c \<Longrightarrow>
   indexOf (pre @ d # s) c = -1 \<or> int (length pre) < indexOf (pre @ d # s) c"
  using indexOf_from_range [of "int (length pre) + 1" s c]
  by (auto simp: indexOf_def indexOf_from_skip)

lemma payload_start_at:
  assumes "CHR ''{'' \<notin> set pre" and "CHR ''['' \<notin> set pre"
    and "d = CHR ''{'' \<or> d = CHR ''[''"
  shows "payload_start (pre @ d # s) = int (length pre)"
proof -
  from assms(3) show ?thesis
  proof
    assume d: "d = CHR ''{''"
    have "indexOf (pre @ d # s) (CHR ''{'') = int (length pre)"
      using assms(1) d by (simp add: indexOf_at)
    moreover have "indexOf (pre @ d # s) (CHR ''['') = -1 \<or>
        int (length pre) < indexOf (pre @ d # s) (CHR ''['')"
      using assms(2) d by (intro indexOf_after) auto
    ultimately show ?thesis by (auto simp: payload_start_def Let_def)
  next
    assume d: "d = CHR ''[''"
    have "indexOf (pre @ d # s) (CHR ''['') = int (length pre)"
      using assms(2) d by (simp add: indexOf_at)
    moreover have "indexOf (pre @ d # s) (CHR ''{'') = -1 \<or>
        int (length pre) < indexOf (pre @ d # s) (CHR ''{'')"
      using assms(1) d by (intro indexOf_after) auto
    ultimately show ?thesis by (auto simp: payload_start_def Let_def)
  qed
qed

lemma remove_all_Nil: "remove_all p ps [] = []"
  by (simp add: remove_all.simps)

text \<open>
  C4, as the source has it. When the text, with every code-fence marker removed and then
  trimmed, is a preamble without any opening brace or bracket followed by a JSON object
  or array document that ends the text, \<open>cleanAndParseJSON\<close> returns the value of
  that document and does not raise.
\<close>

theorem cleanAndParseJSON_embedded:
  assumes "trim (strip_fences text) = pre @ doc"
    and "CHR ''{'' \<notin> set pre" and "CHR ''['' \<notin> set pre"
    and "doc = d # rest" and "d = CHR ''{'' \<or> d = CHR ''[''"
    and "JSON_parse doc = Inr v"
  shows "cleanAndParseJSON text = Inr v"
proof -
  have ne: "text \<noteq> []"
  proof
    assume "text = []"
    then have "trim (strip_fences text) = []"
      by (simp add: strip_fences_def remove_all_Nil trim_def)
    with assms(1,4) show False by simp
  qed
  have "payload_start (pre @ d # rest) = int (length pre)"
    using assms(2,3,5) by (rule payload_start_at)
  then have "locate_payload text = doc"
    using assms(1,4) by (simp add: locate_payload_def Let_def substring_def)
  then show ?thesis
    using ne assms(6) by (simp add: cleanAndParseJSON_def cleanAndParseJSON_with_def Let_def)
qed

text \<open>The markdown-wrapped array of the scenario is such a text.\<close>

theorem cleanAndParseJSON_embedded_witness:
  \<open>trim (strip_fences (''Sure, here are the results:'' @ [CHR 0x0A] @ ''```json'' @ [CHR 0x0A]
       @ ''["Acme","Globex"]'' @ [CHR 0x0A] @ ''```''))
     = (''Sure, here are the results:'' @ [CHR 0x0A, CHR 0x0A]) @ ''["Acme","Globex"]'' \<and>
   CHR ''{'' \<notin> set (''Sure, here are the results:'' @ [CHR 0x0A, CHR 0x0A]) \<and>
   CHR ''['' \<notin> set (''Sure, here are the results:'' @ [CHR 0x0A, CHR 0x0A]) \<and>
   JSON_parse ''["Acme","Globex"]'' = Inr (JArr [JStr ''Acme'', JStr ''Globex'']) \<and>
   cleanAndParseJSON (''Sure, here are the results:'' @ [CHR 0x0A] @ ''```json'' @ [CHR 0x0A]
       @ ''["Acme","Globex"]'' @ [CHR 0x0A] @ ''```'')
     = Inr (JArr [JStr ''Acme'', JStr ''Globex''])\<close>
proof -
  have h1: \<open>trim (strip_fences (''Sure, here are the results:'' @ [CHR 0x0A] @ ''```json''
       @ [CHR 0x0A] @ ''["Acme","Globex"]'' @ [CHR 0x0A] @ ''```''))
     = (''Sure, here are the results:'' @ [CHR 0x0A, CHR 0x0A]) @ ''["Acme","Globex"]''\<close>
    by code_simp
  have h2: "CHR ''{'' \<notin> set (''Sure, here are the results:'' @ [CHR 0x0A, CHR 0x0A])"
    by simp
  have h3: "CHR ''['' \<notin> set (''Sure, here are the results:'' @ [CHR 0x0A, CHR 0x0A])"
    by simp
  have h4: \<open>''["Acme","Globex"]'' = CHR ''['' # ''"Acme","Globex"]''\<close>
    by simp
  have h5: "CHR ''['' = CHR ''{'' \<or> CHR ''['' = CHR ''[''"
    by simp
  have h6: \<open>JSON_parse ''["Acme","Globex"]'' = Inr (JArr [JStr ''Acme'', JStr ''Globex''])\<close>
    by code_simp
  show ?thesis
    using h1 h2 h3 h6 cleanAndParseJSON_embedded [OF h1 h2 h3 h4 h5 h6] by blast
qed

text \<open>
  C4, as the claim states it, fails for arbitrary prose: a bracket in the preamble is taken
  for the start of the payload, and the call raises although the embedded document is
  valid.
\<close>

theorem cleanAndParseJSON_bracket_in_prose:
  \<open>JSON_parse ''["Acme","Globex"]'' = Inr (JArr [JStr ''Acme'', JStr ''Globex'']) \<and>
   cleanAndParseJSON ''Results [2 found]: ["Acme","Globex"]''
     = Inl (ErrorObj ''JSON Parse Failed: Unexpected token in JSON'' None)\<close>
  by code_simp

section \<open>The step runner\<close>

lemma status_updateAgent:
  assumes "a \<in> set (agents (updateAgent r st t s))" and "role a = r"
  shows "status a = st"
proof -
  from assms(1) have "a \<in> (\<lambda>x. if role x = r then merge_agent st t x else x) ` set (agents s)"
    by (simp add: updateAgent_def)
  then obtain x where x: "a = (if role x = r then merge_agent st t x else x)"
    by (rule imageE)
  show ?thesis
  proof (cases "role x = r")
    case True
    with x show ?thesis by (simp add: merge_agent_def)
  next
    case False
    with x assms(2) show ?thesis by simp
  qed
qed

lemma role_merge_agent [simp]: "role (merge_agent st t a) = role a"
  by (simp add: merge_agent_def)

lemma roles_updateAgent: "map role (agents (updateAgent r st t s)) = map role (agents s)"
  by (simp add: updateAgent_def comp_def)

lemma agents_setLogs_append: "agents (setLogs_append e s) = agents s"
  by (simp add: setLogs_append_def)

lemma logs_updateAgent: "logs (updateAgent r st t s) = logs s"
  by (simp add: updateAgent_def)

lemma logs_setLogs_append: "logs (setLogs_append e s) = logs s @ [e]"
  by (simp add: setLogs_append_def)

lemma runStep_rejected:
  "runStep r d (Inl err) dur tr s =
     (Inl err,
      updateAgent r ERROR (Some ''Error encountered'')
        (setLogs_append
           \<lparr>traceId = Some tr, agentName = agent_name_of r, log_role = r,
            log_message = ''FAILED: '' @ d, log_status = ERROR, latency = Some dur,
            errorDetails = Some \<lparr>err_message = message_or_String err,
                                  err_stack = stack_of err, err_context = Some d\<rparr>\<rparr>
           (updateAgent r WORKING (Some d) s)))"
  by (simp add: runStep_def runStep_settle_def runStep_begin_def)

lemma runStep_resolved:
  "runStep r d (Inr v) dur tr s =
     (Inr v,
      updateAgent r IDLE (Some ''Standby'')
        (setLogs_append
           \<lparr>traceId = Some tr, agentName = agent_name_of r, log_role = r,
            log_message = d @ '' - Completed'', log_status = COMPLETED, latency = Some dur,
            errorDetails = None\<rparr>
           (updateAgent r WORKING (Some d) s)))"
  by (simp add: runStep_def runStep_settle_def runStep_begin_def)

text \<open>
  C5. A call of \<open>runStep\<close> settles as the wrapped work does: it resolves with the same
  result or rejects with the same reason.  It appends exactly one log entry, for the given
  role, with status completed when the work resolved and error when it rejected; it
  leaves the roles of the agents as they were, and every agent of the given role with the
  status idle after a resolved work and error after a rejected one, so never working.
\<close>

theorem runStep_log_and_status:
  "fst (runStep r d settled dur tr s) = settled \<and>
   (\<exists>e. logs (snd (runStep r d settled dur tr s)) = logs s @ [e] \<and> log_role e = r \<and>
        log_status e = (case settled of Inr v \<Rightarrow> COMPLETED | Inl err \<Rightarrow> ERROR)) \<and>
   map role (agents (snd (runStep r d settled dur tr s))) = map role (agents s) \<and>
   (\<forall>a \<in> set (agents (snd (runStep r d settled dur tr s))).
      role a = r \<longrightarrow> status a = (case settled of Inr v \<Rightarrow> IDLE | Inl err \<Rightarrow> ERROR))"
proof (cases settled)
  case (Inl err)
  have "\<forall>a \<in> set (agents (snd (runStep r d (Inl err) dur tr s))). role a = r \<longrightarrow> status a = ERROR"
    unfolding runStep_rejected snd_conv using status_updateAgent by blast
  then show ?thesis
    unfolding Inl
    by (simp add: runStep_rejected logs_updateAgent logs_setLogs_append roles_updateAgent
        agents_setLogs_append)
next
  case (Inr v)
  have "\<forall>a \<in> set (agents (snd (runStep r d (Inr v) dur tr s))). role a = r \<longrightarrow> status a = IDLE"
    unfolding runStep_resolved snd_conv using status_updateAgent by blast
  then show ?thesis
    unfolding Inr
    by (simp add: runStep_resolved logs_updateAgent logs_setLogs_append roles_updateAgent
        agents_setLogs_append)
qed


theorem runStep_log_and_status_witness:
  "agents (snd (runStep SCOUT ''Market Scan''
          (Inl (ErrorObj ''quota exceeded'' None) :: thrown + string list) 42 ''T1'' fresh_state)) ! 3
     \<in> set (agents (snd (runStep SCOUT ''Market Scan''
          (Inl (ErrorObj ''quota exceeded'' None) :: thrown + string list) 42 ''T1'' fresh_state))) \<and>
   role (agents (snd (runStep SCOUT ''Market Scan''
          (Inl (ErrorObj ''quota exceeded'' None) :: thrown + string list) 42 ''T1'' fresh_state)) ! 3) = SCOUT \<and>
   status (agents (snd (runStep SCOUT ''Market Scan''
          (Inl (ErrorObj ''quota exceeded'' None) :: thrown + string list) 42 ''T1'' fresh_state)) ! 3) = ERROR \<and>
   fst (runStep SCOUT ''Market Scan''
          (Inl (ErrorObj ''quota exceeded'' None) :: thrown + string list) 42 ''T1'' fresh_state)
     = Inl (ErrorObj ''quota exceeded'' None)"
proof -
  let ?s = "snd (runStep SCOUT ''Market Scan''
          (Inl (ErrorObj ''quota exceeded'' None) :: thrown + string list) 42 ''T1'' fresh_state)"
  have n: "length (agents ?s) = 7"
    by (simp add: runStep_rejected updateAgent_def setLogs_append_def fresh_state_def
        INITIAL_AGENTS_def)
  have m: "agents ?s ! 3 \<in> set (agents ?s)"
    using n by simp
  have r: "role (agents ?s ! 3) = SCOUT"
    by (simp add: runStep_rejected updateAgent_def setLogs_append_def fresh_state_def
        INITIAL_AGENTS_def)
  note t = runStep_log_and_status [of SCOUT "''Market Scan''"
      "Inl (ErrorObj ''quota exceeded'' None) :: thrown + string list" 42 "''T1''" fresh_state]
  from t have q: "\<forall>a \<in> set (agents ?s). role a = SCOUT \<longrightarrow> status a = ERROR"
    by simp
  from t have f: "fst (runStep SCOUT ''Market Scan''
          (Inl (ErrorObj ''quota exceeded'' None) :: thrown + string list) 42 ''T1'' fresh_state)
     = Inl (ErrorObj ''quota exceeded'' None)"
    by simp
  from q m r have "status (agents ?s ! 3) = ERROR"
    by blast
  with m r f show ?thesis by blast
qed

section \<open>A sourcing run without candidates\<close>

lemmas flow_defs =
  handleUserMessage_def sourcing_flow_def and_then_def perform_def throw_def await_step_def
  runStep_def runStep_settle_def runStep_begin_def updateAgent_def updateAllAgents_def
  addMessage_def setLogs_append_def setActiveEdge_def setIsProcessing_def setActiveDealId_def
  createNewDealRoom_def

text \<open>
  C6, as the source has it. In a run of the sourcing flow in which the strategy step
  resolves and the candidate search returns the empty list, the handler appends the log
  entries of these two steps and no other, so no structuring step has run, and the
  final state is the same whatever the structuring service would have done; every agent
  ends with the status error; the messages appended are the user's, the strategy and one
  system message with the zero-candidates error; no deal that existed is changed, and
  when no deal was active at the start the placeholder room Sourcing Scan, created
  before the first step, stays in the collection.
\<close>

theorem zero_candidates_abort:
  assumes "sv_getMDStrategy sv text mandate = Inr strategy"
    and "sv_scoutPotentialTargets sv strategy = Inr []"
    and "files = None \<or> files = Some []"
  shows "logs (handleUserMessage sv mandate trace text files s) =
           logs s @ [completed_entry sv trace MD ''Analyzing Mandate & Strategy'',
                     completed_entry sv trace SCOUT ''Market Scan & Sourcing (Live Web)''] \<and>
         list_all (\<lambda>a. status a = ERROR) (agents (handleUserMessage sv mandate trace text files s)) \<and>
         messages (handleUserMessage sv mandate trace text files s) =
           messages s @
             [user_message (activeDealId s) text files,
              plain_message (activeDealId s) Model strategy ''Athena (MD)'',
              plain_message (activeDealId s) System
                (pipeline_failed_text ''Scout returned 0 targets. Try refining your search criteria.'')
                ''SYSTEM''] \<and>
         deals (handleUserMessage sv mandate trace text files s) =
           (if no_active_deal (activeDealId s)
            then deals s @ [sourcing_scan_room (sv_newId sv)] else deals s) \<and>
         handleUserMessage (sv\<lparr>sv_generateDealStructure := g\<rparr>) mandate trace text files s =
           handleUserMessage sv mandate trace text files s"
proof -
  have f: "(case files of None \<Rightarrow> A | Some fs \<Rightarrow> if length fs > 0 then B fs else A) = A" for A :: "(thrown + unit) \<times> AppState" and B
    using assms(3) by auto
  have l: "logs (handleUserMessage sv mandate trace text files s) =
           logs s @ [completed_entry sv trace MD ''Analyzing Mandate & Strategy'',
                     completed_entry sv trace SCOUT ''Market Scan & Sourcing (Live Web)'']"
    using assms(1,2)
    by (simp add: flow_defs f Let_def completed_entry_def zero_targets_error_def split: prod.splits)
  have a: "list_all (\<lambda>a. status a = ERROR) (agents (handleUserMessage sv mandate trace text files s))"
    using assms(1,2)
    by (simp add: flow_defs f Let_def list_all_iff merge_agent_def split: prod.splits)
  have m: "messages (handleUserMessage sv mandate trace text files s) =
           messages s @
             [user_message (activeDealId s) text files,
              plain_message (activeDealId s) Model strategy ''Athena (MD)'',
              plain_message (activeDealId s) System
                (pipeline_failed_text ''Scout returned 0 targets. Try refining your search criteria.'')
                ''SYSTEM'']"
    using assms(1,2)
    by (simp add: flow_defs f Let_def user_message_def plain_message_def zero_targets_error_def
        new_Error_def message_or_unknown_def split: prod.splits)
  have d: "deals (handleUserMessage sv mandate trace text files s) =
           (if no_active_deal (activeDealId s)
            then deals s @ [sourcing_scan_room (sv_newId sv)] else deals s)"
    using assms(1,2)
    by (simp add: flow_defs f Let_def sourcing_scan_room_def split: prod.splits)
  have g: "handleUserMessage (sv\<lparr>sv_generateDealStructure := g\<rparr>) mandate trace text files s =
           handleUserMessage sv mandate trace text files s"
    using assms(1,2)
    by (simp add: flow_defs f Let_def split: prod.splits)
  from l a m d g show ?thesis by (intro conjI)
qed

theorem zero_candidates_abort_witness:
  "sv_getMDStrategy zero_scout_services ''Find a clinic roll-up'' ''Fund: DiDi Capital''
     = Inr ''Focus on healthcare services'' \<and>
   sv_scoutPotentialTargets zero_scout_services ''Focus on healthcare services'' = Inr [] \<and>
   list_all (\<lambda>a. status a = ERROR)
     (agents (handleUserMessage zero_scout_services ''Fund: DiDi Capital'' ''T1''
        ''Find a clinic roll-up'' None fresh_state)) \<and>
   deals (handleUserMessage zero_scout_services ''Fund: DiDi Capital'' ''T1''
        ''Find a clinic roll-up'' None fresh_state) = [sourcing_scan_room ''1700000000000'']"
proof -
  have h1: "sv_getMDStrategy zero_scout_services ''Find a clinic roll-up'' ''Fund: DiDi Capital''
     = Inr ''Focus on healthcare services''"
    by (simp add: zero_scout_services_def)
  have h2: "sv_scoutPotentialTargets zero_scout_services ''Focus on healthcare services'' = Inr []"
    by (simp add: zero_scout_services_def)
  have h3: "(None :: FileAttachment list option) = None \<or> (None :: FileAttachment list option) = Some []"
    by simp
  have i: "no_active_deal (activeDealId fresh_state)" "deals fresh_state = []"
    "sv_newId zero_scout_services = ''1700000000000''"
    by (simp_all add: no_active_deal_def fresh_state_def zero_scout_services_def)
  from zero_candidates_abort [OF h1 h2 h3, of "''T1''" fresh_state] h1 h2 i
  show ?thesis by simp
qed


text \<open>
  C6, as the claim states it, fails: started without an active deal, the run leaves a deal
  record in the collection that was not there before.
\<close>

theorem zero_candidates_placeholder_room:
  "deals (handleUserMessage zero_scout_services ''Fund: DiDi Capital'' ''T1''
        ''Find a clinic roll-up'' None fresh_state) \<noteq> deals fresh_state"
  by (simp add: flow_defs Let_def zero_scout_services_def fresh_state_def no_active_deal_def
      split: prod.splits)

section \<open>Image generation\<close>

lemma first_image_none:
  "list_all (\<lambda>p. inlineData p = None) ps \<Longrightarrow> first_image ps = None"
  by (induction ps) auto

text \<open>
  C7. \<open>generateConceptImage\<close> never rejects.  When the primary model fails with a
  message that contains 403, PERMISSION_DENIED or Quota, exactly two requests are sent:
  the primary one and then one to the fallback model, without imageSize.  After any
  other failure of the primary model only the primary request was sent and the result is
  null.  The result is also null when the fallback fails, and when the response that is
  read, primary or fallback, has no part with inline data.
\<close>

theorem generateConceptImage_fallback:
  "(\<exists>r. fst (generateConceptImage generateContent prompt) = Inr r) \<and>
   (\<forall>e. generateContent (concept_request prompt ''gemini-3-pro-image-preview'' True) = Inl e \<and>
        permission_or_quota e \<longrightarrow>
        snd (generateConceptImage generateContent prompt) =
          [concept_request prompt ''gemini-3-pro-image-preview'' True,
           concept_request prompt ''gemini-2.5-flash-image'' False] \<and>
        imageSize (concept_request prompt ''gemini-2.5-flash-image'' False) = None) \<and>
   (\<forall>e. generateContent (concept_request prompt ''gemini-3-pro-image-preview'' True) = Inl e \<and>
        \<not> permission_or_quota e \<longrightarrow>
        generateConceptImage generateContent prompt =
          (Inr None, [concept_request prompt ''gemini-3-pro-image-preview'' True])) \<and>
   (\<forall>e e'. generateContent (concept_request prompt ''gemini-3-pro-image-preview'' True) = Inl e \<and>
        permission_or_quota e \<and>
        generateContent (concept_request prompt ''gemini-2.5-flash-image'' False) = Inl e' \<longrightarrow>
        fst (generateConceptImage generateContent prompt) = Inr None) \<and>
   (\<forall>e response. generateContent (concept_request prompt ''gemini-3-pro-image-preview'' True) = Inl e \<and>
        permission_or_quota e \<and>
        generateContent (concept_request prompt ''gemini-2.5-flash-image'' False) = Inr response \<and>
        list_all (\<lambda>p. inlineData p = None) (parts_of response) \<longrightarrow>
        fst (generateConceptImage generateContent prompt) = Inr None) \<and>
   (\<forall>response. generateContent (concept_request prompt ''gemini-3-pro-image-preview'' True) = Inr response \<and>
        list_all (\<lambda>p. inlineData p = None) (parts_of response) \<longrightarrow>
        generateConceptImage generateContent prompt =
          (Inr None, [concept_request prompt ''gemini-3-pro-image-preview'' True]))"
proof -
  let ?P = "concept_request prompt ''gemini-3-pro-image-preview'' True"
  let ?F = "concept_request prompt ''gemini-2.5-flash-image'' False"
  have 1: "\<exists>r. fst (generateConceptImage generateContent prompt) = Inr r"
    by (simp add: generateConceptImage_def Let_def split: sum.splits)
  have 2: "imageSize ?F = None"
    by (simp add: concept_request_def)
  have 3: "snd (generateConceptImage generateContent prompt) = [?P, ?F]"
    if "generateContent ?P = Inl e" "permission_or_quota e" for e
    using that by (simp add: generateConceptImage_def Let_def split: sum.splits)
  have 4: "generateConceptImage generateContent prompt = (Inr None, [?P])"
    if "generateContent ?P = Inl e" "\<not> permission_or_quota e" for e
    using that by (simp add: generateConceptImage_def Let_def)
  have 5: "fst (generateConceptImage generateContent prompt) = Inr None"
    if "generateContent ?P = Inl e" "permission_or_quota e" "generateContent ?F = Inl e'" for e e'
    using that by (simp add: generateConceptImage_def Let_def)
  have 6: "fst (generateConceptImage generateContent prompt) = Inr None"
    if "generateContent ?P = Inl e" "permission_or_quota e" "generateContent ?F = Inr response"
      "list_all (\<lambda>p. inlineData p = None) (parts_of response)" for e response
    using that by (simp add: generateConceptImage_def Let_def first_image_none)
  have 7: "generateConceptImage generateContent prompt = (Inr None, [?P])"
    if "generateContent ?P = Inr response"
      "list_all (\<lambda>p. inlineData p = None) (parts_of response)" for response
    using that by (simp add: generateConceptImage_def Let_def first_image_none)
  from 1 2 3 4 5 6 7 show ?thesis by blast
qed

theorem generateConceptImage_fallback_witness:
  "generateConceptImage quota_then_image ''Acme Healthcare logo'' =
     (Inr (Some ''data:image/png;base64,iVBORw0KGgo=''),
      [concept_request ''Acme Healthcare logo'' ''gemini-3-pro-image-preview'' True,
       concept_request ''Acme Healthcare logo'' ''gemini-2.5-flash-image'' False]) \<and>
   permission_or_quota (ErrorObj ''403 PERMISSION_DENIED: image model not enabled'' None) \<and>
   \<not> permission_or_quota (ErrorObj ''503 Service Unavailable'' None) \<and>
   generateConceptImage always_unavailable ''Acme Healthcare logo'' =
     (Inr None, [concept_request ''Acme Healthcare logo'' ''gemini-3-pro-image-preview'' True])"
proof -
  have q: "permission_or_quota (ErrorObj ''403 PERMISSION_DENIED: image model not enabled'' None)"
    by (simp add: permission_or_quota_def)
  have n: "\<not> permission_or_quota (ErrorObj ''503 Service Unavailable'' None)"
    by (simp add: permission_or_quota_def)
  have p1: "quota_then_image (concept_request ''Acme Healthcare logo'' ''gemini-3-pro-image-preview'' True)
      = Inl (ErrorObj ''403 PERMISSION_DENIED: image model not enabled'' None)"
    by (simp add: quota_then_image_def concept_request_def)
  have p2: "always_unavailable (concept_request ''Acme Healthcare logo'' ''gemini-3-pro-image-preview'' True)
      = Inl (ErrorObj ''503 Service Unavailable'' None)"
    by (simp add: always_unavailable_def)
  have calls: "snd (generateConceptImage quota_then_image ''Acme Healthcare logo'') =
      [concept_request ''Acme Healthcare logo'' ''gemini-3-pro-image-preview'' True,
       concept_request ''Acme Healthcare logo'' ''gemini-2.5-flash-image'' False]"
    using generateConceptImage_fallback [of quota_then_image "''Acme Healthcare logo''"] p1 q by blast
  have img: "fst (generateConceptImage quota_then_image ''Acme Healthcare logo'') =
      Inr (Some ''data:image/png;base64,iVBORw0KGgo='')"
    by (simp add: generateConceptImage_def Let_def quota_then_image_def concept_request_def q
        parts_of_def)
  have other: "generateConceptImage always_unavailable ''Acme Healthcare logo'' =
     (Inr None, [concept_request ''Acme Healthcare logo'' ''gemini-3-pro-image-preview'' True])"
    using generateConceptImage_fallback [of always_unavailable "''Acme Healthcare logo''"] p2 n by blast
  from calls img have "generateConceptImage quota_then_image ''Acme Healthcare logo'' =
     (Inr (Some ''data:image/png;base64,iVBORw0KGgo=''),
      [concept_request ''Acme Healthcare logo'' ''gemini-3-pro-image-preview'' True,
       concept_request ''Acme Healthcare logo'' ''gemini-2.5-flash-image'' False])"
    by (simp add: prod_eq_iff)
  with q n other show ?thesis by blast
qed

section \<open>Hydration of the deal collection\<close>

text \<open>
  The test \<^verbatim>\<open>parsed && parsed.companyName\<close> of the migration holds of every record that
  \<open>sanitizeDealData\<close> returns: its company name is never falsy.
\<close>

lemma lor_truthy: "truthy d \<Longrightarrow> truthy (lor x d)"
  by (simp add: lor_def split: option.splits)

lemma sanitizeDealData_has_company_name:
  assumes "sanitizeDealData parsed fallback = Inr d"
  shows "has_company_name d"
proof -
  from assms have ne: "parsed \<noteq> JNull"
    by (auto simp: sanitizeDealData_def split: if_splits)
  have "truthy (lor (Some (lor (field parsed ''companyName'') (JStr fallback))) (JStr ''Target Company''))"
    by (rule lor_truthy) simp
  with assms ne show ?thesis
    by (auto simp: sanitizeDealData_def has_company_name_def)
qed

text \<open>
  C8. When the key didi_deals is absent and the key didi_dealData holds text that parses
  to a deal, a value with a truthy company name, the initializer returns the collection
  of exactly one room: its id is legacy-migration, its title the company name, its stage
  Diligence, its data the legacy deal itself, its two dates the current one, its tag
  Migrated and its priority Medium.  When didi_deals holds text that parses, the
  initializer returns the parsed value, so a store that holds this collection under the
  new key hydrates to the same collection.  When both keys are absent, when the text
  under either key does not parse, when reading the store throws, and for a legacy
  value without a company name, it returns the empty collection; it returns a value in
  every case.
\<close>

theorem deals_hydration:
  "(getItem ''didi_deals'' = Inr None \<and> getItem ''didi_dealData'' = Inr (Some legacy) \<and>
      legacy \<noteq> [] \<and> JSON_parse_dates legacy = Inr deal \<and>
      field deal ''companyName'' = Some n \<and> truthy n \<longrightarrow>
      deals_initializer getItem now =
        JArr [JObj [(''id'', JStr ''legacy-migration''),
                    (''title'', n),
                    (''stage'', JStr ''Diligence''),
                    (''data'', deal),
                    (''createdAt'', JDate now),
                    (''lastUpdated'', JDate now),
                    (''tags'', JArr [JStr ''Migrated'']),
                    (''priority'', JStr ''Medium'')]]) \<and>
   (getItem ''didi_deals'' = Inr (Some saved) \<and> saved \<noteq> [] \<and> JSON_parse_dates saved = Inr stored \<longrightarrow>
      deals_initializer getItem now = stored) \<and>
   (getItem ''didi_deals'' = Inr None \<and> getItem ''didi_dealData'' = Inr None \<longrightarrow>
      deals_initializer getItem now = JArr []) \<and>
   (getItem ''didi_deals'' = Inr (Some saved) \<and> saved \<noteq> [] \<and> JSON_parse_dates saved = Inl m \<longrightarrow>
      deals_initializer getItem now = JArr []) \<and>
   (getItem ''didi_deals'' = Inr None \<and> getItem ''didi_dealData'' = Inr (Some legacy) \<and>
      legacy \<noteq> [] \<and> JSON_parse_dates legacy = Inl m \<longrightarrow>
      deals_initializer getItem now = JArr []) \<and>
   (getItem ''didi_deals'' = Inl e \<longrightarrow> deals_initializer getItem now = JArr []) \<and>
   (getItem ''didi_deals'' = Inr None \<and> getItem ''didi_dealData'' = Inl e \<longrightarrow>
      deals_initializer getItem now = JArr []) \<and>
   (getItem ''didi_deals'' = Inr None \<and> getItem ''didi_dealData'' = Inr (Some legacy) \<and>
      legacy \<noteq> [] \<and> JSON_parse_dates legacy = Inr deal \<and> \<not> has_company_name deal \<longrightarrow>
      deals_initializer getItem now = JArr [])"
proof -
  have t: "truthy deal" if "field deal ''companyName'' = Some n" for deal n
    using that by (cases deal) simp_all
  show ?thesis
    by (auto simp: deals_initializer_def deals_try_def saved_text_def has_company_name_def
        legacy_room_def t)
qed

theorem deals_hydration_witness:
  \<open>store_with_legacy_deal ''didi_deals'' = Inr None \<and>
   store_with_legacy_deal ''didi_dealData'' = Inr (Some ''{"companyName":"Acme","ebitda":12}'') \<and>
   JSON_parse_dates ''{"companyName":"Acme","ebitda":12}''
     = Inr (JObj [(''companyName'', JStr ''Acme''), (''ebitda'', JNum 12)]) \<and>
   field (JObj [(''companyName'', JStr ''Acme''), (''ebitda'', JNum 12)]) ''companyName''
     = Some (JStr ''Acme'') \<and>
   truthy (JStr ''Acme'') \<and>
   deals_initializer store_with_legacy_deal ''2026-01-01T00:00:00.000Z'' =
     JArr [JObj [(''id'', JStr ''legacy-migration''),
                 (''title'', JStr ''Acme''),
                 (''stage'', JStr ''Diligence''),
                 (''data'', JObj [(''companyName'', JStr ''Acme''), (''ebitda'', JNum 12)]),
                 (''createdAt'', JDate ''2026-01-01T00:00:00.000Z''),
                 (''lastUpdated'', JDate ''2026-01-01T00:00:00.000Z''),
                 (''tags'', JArr [JStr ''Migrated'']),
                 (''priority'', JStr ''Medium'')]]\<close>
proof -
  have h1: "store_with_legacy_deal ''didi_deals'' = Inr None"
    by (simp add: store_with_legacy_deal_def)
  have h2: \<open>store_with_legacy_deal ''didi_dealData'' = Inr (Some ''{"companyName":"Acme","ebitda":12}'')\<close>
    by (simp add: store_with_legacy_deal_def)
  have h3: \<open>''{"companyName":"Acme","ebitda":12}'' \<noteq> []\<close>
    by simp
  have h4: \<open>JSON_parse_dates ''{"companyName":"Acme","ebitda":12}''
     = Inr (JObj [(''companyName'', JStr ''Acme''), (''ebitda'', JNum 12)])\<close>
    by code_simp
  have h5: "field (JObj [(''companyName'', JStr ''Acme''), (''ebitda'', JNum 12)]) ''companyName''
     = Some (JStr ''Acme'')" "truthy (JStr ''Acme'')"
    by simp_all
  from deals_hydration [of store_with_legacy_deal _ _ _ "''2026-01-01T00:00:00.000Z''"] h1 h2 h3 h4 h5
  show ?thesis by blast
qed

end
